theory Spec2Isabelle
  imports Main
begin

section \<open>Values, schema nodes and the ambient world\<close>

text \<open>
  The values \<^verbatim>\<open>generateMock\<close> produces. JavaScript numbers are modelled by the integers
  (every number the synthesizers draw comes from \<^verbatim>\<open>faker.number.int\<close>), a \<^verbatim>\<open>Date\<close> by its time
  value in milliseconds, an object by its entries in insertion order, a \<^verbatim>\<open>Set\<close> and a
  \<^verbatim>\<open>Map\<close> by their entries in insertion order. \<open>VFunc\<close> is the stub returned for a
  function schema; what calling it does is \<open>zodMockFunction\<close> below. \<open>VSchemaRef\<close> is the
  schema node itself handed back as a value (what \<^verbatim>\<open>Object(schema)\<close> returns).
\<close>

datatype val =
    VUndefined
  | VNull
  | VNaN
  | VNum int
  | VBool bool
  | VStr string
  | VDate int
  | VArr "val list"
  | VObj "(string \<times> val) list"
  | VSet "val list"
  | VMap "(val \<times> val) list"
  | VFunc
  | VPromise val
  | VSchemaRef

text \<open>
  Exceptions: \<^verbatim>\<open>ZodMockError\<close> carries the type tag it was constructed with; every other
  thrown value (TypeError, RangeError, FakerError, an error thrown by a caller's callback)
  is a \<open>RuntimeFault\<close> with its message.
\<close>

datatype exn = ZodMockError string | RuntimeFault string

text \<open>
  The entries of \<^verbatim>\<open>_def.checks\<close> of a string or number node: the bounds carry a number,
  a regex check carries its pattern, any other check (\<^verbatim>\<open>email\<close>, \<^verbatim>\<open>uuid\<close>, \<^verbatim>\<open>int\<close>, ...)
  only has its kind.
\<close>

datatype check =
    MinCheck int
  | MaxCheck int
  | LengthCheck int
  | RegexCheck string
  | OtherCheck string

fun kind :: "check \<Rightarrow> string" where
  "kind (MinCheck _) = ''min''"
| "kind (MaxCheck _) = ''max''"
| "kind (LengthCheck _) = ''length''"
| "kind (RegexCheck _) = ''regex''"
| "kind (OtherCheck k) = k"

text \<open>
  The checks of a date node are \<^verbatim>\<open>min\<close> and \<^verbatim>\<open>max\<close>; \<^verbatim>\<open>parseDate\<close> inspects the stored value at
  run time (a number, a \<^verbatim>\<open>Date\<close>, or something invalid), so it is kept as a value.
\<close>

datatype date_check = DateMin val | DateMax val

text \<open>The effect of a \<^verbatim>\<open>ZodEffects\<close> node; a transform is the caller's function and may throw.\<close>

datatype effect =
    Transform "val \<Rightarrow> exn + val"
  | Refinement
  | Preprocess

text \<open>
  Schema nodes, one constructor per type tag of the registry. \<open>ZodOther t\<close> is a node whose
  tag \<open>t\<close> is any other string (\<^verbatim>\<open>ZodAny\<close>, \<^verbatim>\<open>ZodUnknown\<close>, a custom tag). An object's shape
  is its fields in key order; an array carries \<^verbatim>\<open>minLength\<close>, \<^verbatim>\<open>maxLength\<close>, \<^verbatim>\<open>exactLength\<close>;
  a set carries \<^verbatim>\<open>minSize\<close>, \<^verbatim>\<open>maxSize\<close>; a native enum carries its valid values; a default
  node carries the value its \<^verbatim>\<open>defaultValue()\<close> returns; a lazy node carries its getter.
\<close>

datatype schema =
    ZodObject "(string \<times> schema) list"
  | ZodRecord schema schema
  | ZodArray schema "int option" "int option" "int option"
  | ZodSet schema "int option" "int option"
  | ZodMap schema schema
  | ZodLazy "unit \<Rightarrow> schema"
  | ZodUnion "schema list"
  | ZodIntersection schema schema
  | ZodDiscriminatedUnion "schema list"
  | ZodOptional schema
  | ZodNullable schema
  | ZodTransformer schema effect
  | ZodEffects schema effect
  | ZodFunction schema
  | ZodPromise schema
  | ZodTuple "schema list" "schema option"
  | ZodString "check list"
  | ZodNumber "check list"
  | ZodBigInt "check list"
  | ZodBoolean
  | ZodDate "date_check list"
  | ZodEnum "val list"
  | ZodNativeEnum "val list"
  | ZodLiteral val
  | ZodBranded schema
  | ZodNull
  | ZodNaN
  | ZodDefault val schema
  | ZodVoid
  | ZodUndefined
  | ZodUuid
  | ZodOther string

fun typeName :: "schema \<Rightarrow> string" where
  "typeName (ZodObject _) = ''ZodObject''"
| "typeName (ZodRecord _ _) = ''ZodRecord''"
| "typeName (ZodArray _ _ _ _) = ''ZodArray''"
| "typeName (ZodSet _ _ _) = ''ZodSet''"
| "typeName (ZodMap _ _) = ''ZodMap''"
| "typeName (ZodLazy _) = ''ZodLazy''"
| "typeName (ZodUnion _) = ''ZodUnion''"
| "typeName (ZodIntersection _ _) = ''ZodIntersection''"
| "typeName (ZodDiscriminatedUnion _) = ''ZodDiscriminatedUnion''"
| "typeName (ZodOptional _) = ''ZodOptional''"
| "typeName (ZodNullable _) = ''ZodNullable''"
| "typeName (ZodTransformer _ _) = ''ZodTransformer''"
| "typeName (ZodEffects _ _) = ''ZodEffects''"
| "typeName (ZodFunction _) = ''ZodFunction''"
| "typeName (ZodPromise _) = ''ZodPromise''"
| "typeName (ZodTuple _ _) = ''ZodTuple''"
| "typeName (ZodString _) = ''ZodString''"
| "typeName (ZodNumber _) = ''ZodNumber''"
| "typeName (ZodBigInt _) = ''ZodBigInt''"
| "typeName ZodBoolean = ''ZodBoolean''"
| "typeName (ZodDate _) = ''ZodDate''"
| "typeName (ZodEnum _) = ''ZodEnum''"
| "typeName (ZodNativeEnum _) = ''ZodNativeEnum''"
| "typeName (ZodLiteral _) = ''ZodLiteral''"
| "typeName (ZodBranded _) = ''ZodBranded''"
| "typeName ZodNull = ''ZodNull''"
| "typeName ZodNaN = ''ZodNaN''"
| "typeName (ZodDefault _ _) = ''ZodDefault''"
| "typeName ZodVoid = ''ZodVoid''"
| "typeName ZodUndefined = ''ZodUndefined''"
| "typeName ZodUuid = ''ZodUuid''"
| "typeName (ZodOther t) = t"

text \<open>
  The value of the \<^verbatim>\<open>currentDepth\<close> or \<^verbatim>\<open>maxDepth\<close> property of the options
  (\<^verbatim>\<open>number | undefined\<close>): a number, \<^verbatim>\<open>undefined\<close> written out by the caller, or \<^verbatim>\<open>NaN\<close>, which
  is what \<^verbatim>\<open>undefined + 1\<close> is. \<^verbatim>\<open>a >= b\<close> is false as soon as one side is not a number.
\<close>

datatype depth = Depth int | DepthUndefined | DepthNaN

fun depth_ge :: "depth \<Rightarrow> depth \<Rightarrow> bool" where
  "depth_ge (Depth a) (Depth b) = (a \<ge> b)"
| "depth_ge _ _ = False"

fun depth_succ :: "depth \<Rightarrow> depth" where
  "depth_succ (Depth a) = Depth (a + 1)"
| "depth_succ _ = DepthNaN"

text \<open>A seed is a number or an array of numbers.\<close>

datatype seedv = SeedNum int | SeedArr "int list"

text \<open>
  The world a call runs in. Faker instances are mutable objects: the store \<open>fakers\<close> maps
  an address to the generator state of the instance living there. Address 0 is the
  module-level \<^verbatim>\<open>faker\<close> imported from the library; \<open>allocated\<close> counts the instances
  constructed with \<^verbatim>\<open>new Faker\<close> so far. \<open>console\<close> collects what is written with
  \<^verbatim>\<open>console.warn\<close> and \<^verbatim>\<open>console.error\<close>; \<open>now\<close> is the clock.
\<close>

record 'r world =
  fakers :: "nat \<Rightarrow> 'r"
  allocated :: nat
  console :: "string list"
  now :: int

text \<open>
  A computation either runs out of fuel (\<open>None\<close>), throws (\<open>Inl\<close>) or returns (\<open>Inr\<close>),
  and leaves a world behind in the last two cases.
\<close>

type_synonym ('r, 'a) comp = "'r world \<Rightarrow> ((exn + 'a) \<times> 'r world) option"

definition ret :: "'a \<Rightarrow> ('r, 'a) comp" where
  "ret x w = Some (Inr x, w)"

definition throw :: "exn \<Rightarrow> ('r, 'a) comp" where
  "throw e w = Some (Inl e, w)"

definition and_then :: "('r, 'a) comp \<Rightarrow> ('a \<Rightarrow> ('r, 'b) comp) \<Rightarrow> ('r, 'b) comp" where
  "and_then m f w =
     (case m w of
        None \<Rightarrow> None
      | Some (Inl e, w') \<Rightarrow> Some (Inl e, w')
      | Some (Inr x, w') \<Rightarrow> f x w')"

definition log_line :: "string \<Rightarrow> 'r world \<Rightarrow> 'r world" where
  "log_line m w = w\<lparr>console := console w @ [m]\<rparr>"

text \<open>A zero-argument faker function: it reads and advances the state of its instance.\<close>

type_synonym 'r gen = "'r \<Rightarrow> (exn + val) \<times> 'r"

text \<open>A property of a faker section is a function or something else.\<close>

datatype 'r member = Fn "'r gen" | NotFn

text \<open>
  The third-party libraries (\<^verbatim>\<open>@std/faker\<close>, \<^verbatim>\<open>@std/randexp\<close>) are not part of the
  repository; they are a parameter of the model. \<open>'r\<close> is the state of one Faker
  instance. \<open>new_faker k\<close> is the (unseeded) state of the \<open>k\<close>-th instance constructed.
  \<open>number_int\<close> takes the optional \<^verbatim>\<open>min\<close> and \<^verbatim>\<open>max\<close>; \<open>lorem_word\<close> the optional length;
  \<open>date_soon\<close> the reference date; \<open>date_recent\<close> the optional number of days and the
  reference date; \<open>arrayElement\<close> the array's length and returns an index; \<open>sections\<close> is
  what \<^verbatim>\<open>Object.keys\<close> enumerates on the instance and on each of its sections (a member
  read by name on a section is taken to be one of those enumerated);
  \<open>randexp_gen\<close> takes the pattern, the optional \<^verbatim>\<open>max\<close> and the \<^verbatim>\<open>randInt\<close> source.
\<close>

record 'r lib =
  new_faker :: "nat \<Rightarrow> 'r"
  faker_seed :: "seedv \<Rightarrow> 'r \<Rightarrow> 'r"
  number_int :: "int option \<Rightarrow> int option \<Rightarrow> 'r \<Rightarrow> (exn + int) \<times> 'r"
  datatype_boolean :: "'r \<Rightarrow> bool \<times> 'r"
  lorem_word :: "int option \<Rightarrow> 'r gen"
  string_alpha :: "int \<Rightarrow> 'r \<Rightarrow> string \<times> 'r"
  string_uuid :: "'r gen"
  internet_email :: "'r gen"
  internet_url :: "'r gen"
  internet_color :: "'r gen"
  person_fullName :: "'r gen"
  phone_number :: "'r gen"
  image_url :: "'r gen"
  number_float :: "'r gen"
  number_hex :: "'r gen"
  location_city :: "'r gen"
  date_between :: "int \<Rightarrow> int \<Rightarrow> 'r \<Rightarrow> (exn + int) \<times> 'r"
  date_soon :: "int \<Rightarrow> 'r \<Rightarrow> (exn + int) \<times> 'r"
  date_recent :: "int option \<Rightarrow> int \<Rightarrow> 'r \<Rightarrow> (exn + int) \<times> 'r"
  arrayElement :: "nat \<Rightarrow> 'r \<Rightarrow> (exn + nat) \<times> 'r"
  sections :: "(string \<times> (string \<times> 'r member) list) list"
  randexp_gen :: "string \<Rightarrow> int option \<Rightarrow> 'r \<Rightarrow> (exn + string) \<times> 'r"
  date_toString :: "int \<Rightarrow> string"
  date_toISOString :: "int \<Rightarrow> string"

text \<open>
  \<^verbatim>\<open>GenerateMockOptions\<close>. A field is \<open>None\<close> when the options object has no such property.
  \<open>faker\<close> is the address of the instance passed in. A \<^verbatim>\<open>stringMap\<close> entry is given by what
  calling it yields, a \<^verbatim>\<open>backupMocks\<close> entry by what it yields for the schema node it is called
  with; both tables are given by what reading a name on them finds, inherited members
  included. The two depth properties meet the object spread
  \<^verbatim>\<open>{ maxDepth: 10, currentDepth: 0, ...options }\<close>, where a property that is present with the
  value \<^verbatim>\<open>undefined\<close> replaces the default just like a number does, so they keep the
  difference between absent (\<open>None\<close>) and \<^verbatim>\<open>undefined\<close> (\<open>Some DepthUndefined\<close>). For the other
  fields the code treats a property holding \<^verbatim>\<open>undefined\<close> like an absent one, \<open>faker\<close> apart:
  it is taken to be absent or an instance.
\<close>

record 'r options =
  keyName :: "string option"
  stringMap :: "(string \<Rightarrow> (exn + val) option) option"
  mockeryMapper :: "(string \<Rightarrow> 'r gen option) option"
  backupMocks :: "(string \<Rightarrow> (schema \<Rightarrow> exn + val) option) option"
  recordKeysLength :: "int option"
  mapEntriesLength :: "int option"
  throwOnUnknownType :: "bool option"
  seed :: "seedv option"
  faker :: "nat option"
  currentDepth :: "depth option"
  maxDepth :: "depth option"

section \<open>JavaScript helpers\<close>

text \<open>\<^verbatim>\<open>toLowerCase\<close>, \<^verbatim>\<open>toUpperCase\<close> on the ASCII letters; \<^verbatim>\<open>replace(/_|-/g, '')\<close>.\<close>

definition toLowerChar :: "char \<Rightarrow> char" where
  "toLowerChar c =
     (let n = (of_char c :: nat) in if 65 \<le> n \<and> n \<le> 90 then char_of (n + 32) else c)"

definition toUpperChar :: "char \<Rightarrow> char" where
  "toUpperChar c =
     (let n = (of_char c :: nat) in if 97 \<le> n \<and> n \<le> 122 then char_of (n - 32) else c)"

definition toLowerCase :: "string \<Rightarrow> string" where
  "toLowerCase s = map toLowerChar s"

definition toUpperCase :: "string \<Rightarrow> string" where
  "toUpperCase s = map toUpperChar s"

definition withoutDashesUnderscores :: "string \<Rightarrow> string" where
  "withoutDashesUnderscores s = filter (\<lambda>c. c \<noteq> CHR ''_'' \<and> c \<noteq> CHR ''-'') s"

text \<open>Decimal rendering of a number.\<close>

fun string_of_nat :: "nat \<Rightarrow> string" where
  "string_of_nat n =
     (if n < 10 then [char_of (48 + n)]
      else string_of_nat (n div 10) @ [char_of (48 + n mod 10)])"

definition string_of_int :: "int \<Rightarrow> string" where
  "string_of_int i = (if i < 0 then CHR ''-'' # string_of_nat (nat (- i)) else string_of_nat (nat i))"

fun join_with :: "string \<Rightarrow> string list \<Rightarrow> string" where
  "join_with sep [] = []"
| "join_with sep [x] = x"
| "join_with sep (x # y # ys) = x @ sep @ join_with sep (y # ys)"

text \<open>
  \<^verbatim>\<open>String(v)\<close>, which is also how a computed property key is made from a value. The text
  of a date is the host's; inside an array, \<^verbatim>\<open>null\<close> and \<^verbatim>\<open>undefined\<close> render as the empty
  string.
\<close>

fun toStr :: "(int \<Rightarrow> string) \<Rightarrow> val \<Rightarrow> string" where
  "toStr d VUndefined = ''undefined''"
| "toStr d VNull = ''null''"
| "toStr d VNaN = ''NaN''"
| "toStr d (VNum n) = string_of_int n"
| "toStr d (VBool b) = (if b then ''true'' else ''false'')"
| "toStr d (VStr s) = s"
| "toStr d (VDate t) = d t"
| "toStr d (VArr xs) =
     join_with '','' (map (\<lambda>x. if x = VUndefined \<or> x = VNull then [] else toStr d x) xs)"
| "toStr d (VObj _) = ''[object Object]''"
| "toStr d (VSet _) = ''[object Set]''"
| "toStr d (VMap _) = ''[object Map]''"
| "toStr d VFunc = ''function zodMockFunction() { [code] }''"
| "toStr d (VPromise _) = ''[object Promise]''"
| "toStr d VSchemaRef = ''[object Object]''"

text \<open>\<^verbatim>\<open>v.toString()\<close>: a method call, so it throws on \<^verbatim>\<open>undefined\<close> and \<^verbatim>\<open>null\<close>.\<close>

definition toString_call :: "(int \<Rightarrow> string) \<Rightarrow> val \<Rightarrow> exn + string" where
  "toString_call d v =
     (if v = VUndefined \<or> v = VNull then Inl (RuntimeFault ''TypeError: toString of undefined'')
      else Inr (toStr d v))"

text \<open>
  \<^verbatim>\<open>{ ...carry, [key]: v }\<close>: an existing key keeps its place and gets the new value, a new
  key goes last.
\<close>

fun obj_set :: "(string \<times> val) list \<Rightarrow> string \<Rightarrow> val \<Rightarrow> (string \<times> val) list" where
  "obj_set [] k v = [(k, v)]"
| "obj_set ((k', v') # es) k v =
     (if k' = k then (k, v) # es else (k', v') # obj_set es k v)"

text \<open>
  \<^verbatim>\<open>Set\<close> and \<^verbatim>\<open>Map\<close> compare keys with SameValueZero: primitives by value, everything
  else by reference, and every object the synthesizers build is a new reference.
\<close>

fun is_primitive :: "val \<Rightarrow> bool" where
  "is_primitive VUndefined = True"
| "is_primitive VNull = True"
| "is_primitive VNaN = True"
| "is_primitive (VNum _) = True"
| "is_primitive (VBool _) = True"
| "is_primitive (VStr _) = True"
| "is_primitive _ = False"

definition sameValueZero :: "val \<Rightarrow> val \<Rightarrow> bool" where
  "sameValueZero a b = (is_primitive a \<and> a = b)"

definition set_add :: "val list \<Rightarrow> val \<Rightarrow> val list" where
  "set_add results v = (if list_ex (\<lambda>x. sameValueZero x v) results then results else results @ [v])"

fun map_set :: "(val \<times> val) list \<Rightarrow> val \<Rightarrow> val \<Rightarrow> (val \<times> val) list" where
  "map_set [] k v = [(k, v)]"
| "map_set ((k', v') # es) k v =
     (if sameValueZero k' k then (k', v) # es else (k', v') # map_set es k v)"

text \<open>
  \<^verbatim>\<open>Object.assign(left, right)\<close> on the values the model has: it throws on an
  \<^verbatim>\<open>undefined\<close> or \<^verbatim>\<open>null\<close> target, copies the entries of an object source into an object
  target, and copies nothing from a source without own enumerable properties. (A string
  or array source would copy its indices, and a primitive target would be boxed; the model
  returns the target as it is there.)
\<close>

definition object_assign :: "val \<Rightarrow> val \<Rightarrow> exn + val" where
  "object_assign left right =
     (case left of
        VUndefined \<Rightarrow> Inl (RuntimeFault ''TypeError: Cannot convert undefined or null to object'')
      | VNull \<Rightarrow> Inl (RuntimeFault ''TypeError: Cannot convert undefined or null to object'')
      | VObj l \<Rightarrow> (case right of VObj r \<Rightarrow> Inr (VObj (foldl (\<lambda>acc (k, v). obj_set acc k v) l r))
                               | _ \<Rightarrow> Inr (VObj l))
      | _ \<Rightarrow> Inr left)"

text \<open>\<^verbatim>\<open>val.slice(0, max)\<close>: everything when \<^verbatim>\<open>max\<close> is undefined, counted from the end when negative.\<close>

definition slice0 :: "string \<Rightarrow> int option \<Rightarrow> string" where
  "slice0 s mx =
     (case mx of
        None \<Rightarrow> s
      | Some m \<Rightarrow> if m < 0 then take (nat (int (length s) + m)) s else take (nat m) s)"

section \<open>Access to the faker instance\<close>

text \<open>\<^verbatim>\<open>options?.faker || faker\<close>: the instance passed in, else the module-level one.\<close>

definition fakerInstance :: "'r options \<Rightarrow> nat" where
  "fakerInstance options = (case faker options of Some a \<Rightarrow> a | None \<Rightarrow> 0)"

text \<open>Calling a function of the instance at address \<open>a\<close> updates that instance's state.\<close>

definition on_faker :: "nat \<Rightarrow> ('r \<Rightarrow> (exn + 'a) \<times> 'r) \<Rightarrow> ('r, 'a) comp" where
  "on_faker a g w =
     (case g (fakers w a) of (res, r') \<Rightarrow> Some (res, w\<lparr>fakers := (fakers w)(a := r')\<rparr>))"

definition total :: "('r \<Rightarrow> 'a \<times> 'r) \<Rightarrow> ('r \<Rightarrow> (exn + 'a) \<times> 'r)" where
  "total g r = (case g r of (x, r') \<Rightarrow> (Inr x, r'))"

definition gen_map :: "('a \<Rightarrow> val) \<Rightarrow> ('r \<Rightarrow> (exn + 'a) \<times> 'r) \<Rightarrow> 'r gen" where
  "gen_map f g r = (case g r of (Inl e, r') \<Rightarrow> (Inl e, r') | (Inr x, r') \<Rightarrow> (Inr (f x), r'))"

text \<open>\<^verbatim>\<open>options?.backupMocks?.[tag]\<close>.\<close>

definition backupMock :: "'r options \<Rightarrow> string \<Rightarrow> (schema \<Rightarrow> exn + val) option" where
  "backupMock options t = (case backupMocks options of None \<Rightarrow> None | Some m \<Rightarrow> m t)"

definition call_backup :: "(schema \<Rightarrow> exn + val) \<Rightarrow> schema \<Rightarrow> ('r, val) comp" where
  "call_backup f zodRef w = Some (f zodRef, w)"

section \<open>The depth guard\<close>

text \<open>
  \<^verbatim>\<open>depthControlled\<close>: the defaults 10 and 0 apply to a property that is absent; the guard
  compares with \<^verbatim>\<open>>=\<close>; a node that is none of the five tested classes falls through to the
  last \<^verbatim>\<open>return undefined\<close>.
\<close>

fun depthDefault :: "schema \<Rightarrow> val" where
  "depthDefault (ZodObject _) = VObj []"
| "depthDefault (ZodArray _ _ _ _) = VArr []"
| "depthDefault (ZodSet _ _ _) = VSet []"
| "depthDefault (ZodMap _ _) = VMap []"
| "depthDefault (ZodLazy _) = VUndefined"
| "depthDefault _ = VUndefined"

definition depthControlled ::
  "(schema \<Rightarrow> 'r options \<Rightarrow> ('r, val) comp) \<Rightarrow> schema \<Rightarrow> 'r options \<Rightarrow> ('r, val) comp" where
  "depthControlled parseFunction zodRef options =
     (let defaultOptions = options
            \<lparr>maxDepth := Some (case maxDepth options of None \<Rightarrow> Depth 10 | Some m \<Rightarrow> m),
             currentDepth := Some (case currentDepth options of None \<Rightarrow> Depth 0 | Some d \<Rightarrow> d)\<rparr>
      in if depth_ge (the (currentDepth defaultOptions)) (the (maxDepth defaultOptions))
         then ret (depthDefault zodRef)
         else parseFunction zodRef
                (defaultOptions\<lparr>currentDepth := Some (depth_succ (the (currentDepth defaultOptions)))\<rparr>))"

section \<open>Field-name heuristics\<close>

text \<open>
  The names every plain object inherits from \<^verbatim>\<open>Object.prototype\<close>. A property read
  \<^verbatim>\<open>table[name]\<close> and the test \<^verbatim>\<open>name in table\<close> on an object literal find them as well as
  the literal's own keys.
\<close>

definition objectPrototype_keys :: "string list" where
  "objectPrototype_keys =
     [''constructor'', ''__defineGetter__'', ''__defineSetter__'', ''hasOwnProperty'',
      ''__lookupGetter__'', ''__lookupSetter__'', ''isPrototypeOf'', ''propertyIsEnumerable'',
      ''toString'', ''valueOf'', ''__proto__'', ''toLocaleString'']"

text \<open>
  The default \<^verbatim>\<open>mockeryMapper\<close>: a table from lower-cased key names to faker functions.
  \<^verbatim>\<open>keyName.toLowerCase() in keyToFnMap\<close> also holds for an inherited name; the two that are
  their own lower case are \<^verbatim>\<open>constructor\<close>, whose value \<^verbatim>\<open>Object\<close> returns a new empty object
  when called without arguments, and \<^verbatim>\<open>__proto__\<close>, whose value is an object, so that calling
  it throws a TypeError.
\<close>

definition keyToFnMap :: "'r lib \<Rightarrow> (string \<times> 'r gen) list" where
  "keyToFnMap L =
     [(''image'', image_url L),
      (''imageurl'', image_url L),
      (''number'', gen_map VNum (number_int L None None)),
      (''float'', number_float L),
      (''hexadecimal'', number_hex L),
      (''uuid'', string_uuid L),
      (''boolean'', gen_map VBool (total (datatype_boolean L))),
      (''city'', location_city L)]"

definition defaultMapper :: "'r lib \<Rightarrow> string \<Rightarrow> 'r gen option" where
  "defaultMapper L key =
     (if key \<noteq> [] then
        (case map_of (keyToFnMap L) (toLowerCase key) of
           Some g \<Rightarrow> Some g
         | None \<Rightarrow>
             if toLowerCase key = ''constructor'' then Some (\<lambda>r. (Inr (VObj []), r))
             else if toLowerCase key = ''__proto__''
             then Some (\<lambda>r. (Inl (RuntimeFault ''TypeError: generator is not a function''), r))
             else None)
      else None)"

text \<open>What the probe in \<^verbatim>\<open>findMatchingFaker\<close> accepts: a string, number, boolean or \<^verbatim>\<open>Date\<close>.\<close>

fun is_faker_result :: "val \<Rightarrow> bool" where
  "is_faker_result (VStr _) = True"
| "is_faker_result (VNum _) = True"
| "is_faker_result VNaN = True"
| "is_faker_result (VBool _) = True"
| "is_faker_result (VDate _) = True"
| "is_faker_result _ = False"

text \<open>
  The inner \<^verbatim>\<open>find\<close> over the function keys of one section. A key whose lower-cased
  name matches makes the section's property \<^verbatim>\<open>keyName\<close> (exact case) the candidate; a
  candidate that is a function is called once, and adopted when it returns a primitive
  or a date. A call that throws is ignored, but it has advanced the instance.
\<close>

fun scan_section ::
  "string \<Rightarrow> (string \<times> 'r member) list \<Rightarrow> (string \<times> 'r member) list \<Rightarrow> 'r \<Rightarrow> 'r gen option \<times> 'r" where
  "scan_section key ms [] r = (None, r)"
| "scan_section key ms ((fnKey, m) # rest) r =
     (if toLowerCase fnKey = toLowerCase key
         \<or> toLowerCase fnKey = withoutDashesUnderscores (toLowerCase key)
      then (case map_of ms key of
              Some (Fn g) \<Rightarrow>
                (case g r of
                   (Inr mock, r') \<Rightarrow>
                     if is_faker_result mock then (Some g, r') else scan_section key ms rest r'
                 | (Inl e, r') \<Rightarrow> scan_section key ms rest r')
            | _ \<Rightarrow> scan_section key ms rest r)
      else scan_section key ms rest r)"

fun scan_sections ::
  "string \<Rightarrow> (string \<times> (string \<times> 'r member) list) list \<Rightarrow> 'r \<Rightarrow> 'r gen option \<times> 'r" where
  "scan_sections key [] r = (None, r)"
| "scan_sections key ((sectionKey, ms) # rest) r =
     (case scan_section key ms ms r of
        (Some g, r') \<Rightarrow> (Some g, r')
      | (None, r') \<Rightarrow> scan_sections key rest r')"

definition findMatchingFaker ::
  "'r lib \<Rightarrow> string \<Rightarrow> nat option \<Rightarrow> (string \<Rightarrow> 'r gen option) option \<Rightarrow> ('r, 'r gen option) comp" where
  "findMatchingFaker L key fakerOption mapper =
     (let a = (case fakerOption of Some b \<Rightarrow> b | None \<Rightarrow> 0);
          mapped = (case mapper of Some f \<Rightarrow> f key | None \<Rightarrow> defaultMapper L key)
      in case mapped of
           Some g \<Rightarrow> ret (Some g)
         | None \<Rightarrow> on_faker a (total (scan_sections key (sections L))))"

section \<open>Primitive synthesizers\<close>

text \<open>The \<^verbatim>\<open>forEach\<close> over the checks of a string: a later check overwrites an earlier one.\<close>

fun stringOptions_step :: "int option \<times> int option \<Rightarrow> check \<Rightarrow> int option \<times> int option" where
  "stringOptions_step (mn, mx) (MinCheck v) = (Some v, mx)"
| "stringOptions_step (mn, mx) (MaxCheck v) = (mn, Some v)"
| "stringOptions_step (mn, mx) (LengthCheck v) = (Some v, Some v)"
| "stringOptions_step (mn, mx) _ = (mn, mx)"

definition stringOptions :: "check list \<Rightarrow> int option \<times> int option" where
  "stringOptions checks = foldl stringOptions_step (None, None) checks"

text \<open>
  The swap guarded by \<^verbatim>\<open>min && max && min > max\<close>: a bound that is 0 is falsy, so no
  swap happens then.
\<close>

definition sortedStringOptions :: "int option \<times> int option \<Rightarrow> int option \<times> int option" where
  "sortedStringOptions so =
     (case so of
        (Some mn, Some mx) \<Rightarrow> if mn \<noteq> 0 \<and> mx \<noteq> 0 \<and> mn > mx then (Some mx, Some mn) else so
      | _ \<Rightarrow> so)"

definition defaultGenerator :: "'r lib \<Rightarrow> int \<Rightarrow> 'r gen" where
  "defaultGenerator L targetStringLength =
     (if targetStringLength > 10 then lorem_word L None else lorem_word L (Some targetStringLength))"

definition dateGenerator :: "'r lib \<Rightarrow> int \<Rightarrow> 'r gen" where
  "dateGenerator L clock = gen_map (\<lambda>t. VStr (date_toISOString L t)) (date_recent L None clock)"

definition stringGenerators :: "'r lib \<Rightarrow> int \<Rightarrow> int \<Rightarrow> (string \<times> 'r gen) list" where
  "stringGenerators L targetStringLength clock =
     [(''default'', defaultGenerator L targetStringLength),
      (''email'', internet_email L),
      (''uuid'', string_uuid L),
      (''uid'', string_uuid L),
      (''url'', internet_url L),
      (''name'', person_fullName L),
      (''date'', dateGenerator L clock),
      (''dateTime'', dateGenerator L clock),
      (''colorHex'', internet_color L),
      (''color'', internet_color L),
      (''backgroundColor'', internet_color L),
      (''textShadow'', internet_color L),
      (''textColor'', internet_color L),
      (''textDecorationColor'', internet_color L),
      (''borderColor'', internet_color L),
      (''borderTopColor'', internet_color L),
      (''borderRightColor'', internet_color L),
      (''borderBottomColor'', internet_color L),
      (''borderLeftColor'', internet_color L),
      (''borderBlockStartColor'', internet_color L),
      (''borderBlockEndColor'', internet_color L),
      (''borderInlineStartColor'', internet_color L),
      (''borderInlineEndColor'', internet_color L),
      (''columnRuleColor'', internet_color L),
      (''outlineColor'', internet_color L),
      (''phoneNumber'', phone_number L)]"

text \<open>
  \<^verbatim>\<open>stringType\<close>: the first generator key equal (lower-cased) to the lower-cased key name,
  or equal (upper-cased) to the kind of one of the checks.
\<close>

definition stringType ::
  "(string \<times> 'r gen) list \<Rightarrow> string option \<Rightarrow> check list \<Rightarrow> (string \<times> 'r gen) option" where
  "stringType gens lowerCaseKeyName checks =
     find (\<lambda>(genKey, g).
             Some (toLowerCase genKey) = lowerCaseKeyName
             \<or> list_ex (\<lambda>item. toUpperCase (kind item) = toUpperCase genKey) checks) gens"

text \<open>
  The tail of \<^verbatim>\<open>parseString\<close>: call the generator, render the result, pad with
  \<^verbatim>\<open>delta\<close> alphabetic characters when it is shorter than the declared minimum, and cut
  at the declared maximum.
\<close>

definition finishString ::
  "'r lib \<Rightarrow> nat \<Rightarrow> 'r gen \<Rightarrow> int \<Rightarrow> int option \<times> int option \<Rightarrow> ('r, val) comp" where
  "finishString L a generator targetStringLength so =
     and_then (on_faker a generator) (\<lambda>g.
       case toString_call (date_toString L) g of
         Inl e \<Rightarrow> throw e
       | Inr v \<Rightarrow>
           let delta = targetStringLength - int (length v) in
           (case fst so of
              Some mn \<Rightarrow>
                if int (length v) < mn
                then and_then (on_faker a (total (string_alpha L delta)))
                       (\<lambda>pad. ret (VStr (slice0 (v @ pad) (snd so))))
                else ret (VStr (slice0 v (snd so)))
            | None \<Rightarrow> ret (VStr (slice0 v (snd so)))))"

text \<open>
  \<^verbatim>\<open>checks.find((check) => check.kind === 'regex')\<close> together with the test
  \<^verbatim>\<open>'regex' in regexCheck\<close>, and the \<^verbatim>\<open>max\<close> handed to the regex generator.
\<close>

definition regexCheck :: "check list \<Rightarrow> string option" where
  "regexCheck checks =
     (case find (\<lambda>c. kind c = ''regex'') checks of Some (RegexCheck re) \<Rightarrow> Some re | _ \<Rightarrow> None)"

definition regexMax :: "check list \<Rightarrow> int option" where
  "regexMax checks =
     (case find (\<lambda>c. kind c = ''max'') checks of Some (MaxCheck m) \<Rightarrow> Some m | _ \<Rightarrow> None)"

text \<open>
  \<^verbatim>\<open>options.stringMap[options.keyName]\<close>, looked up only when both the key name and the
  map are there; the entry is what calling the caller's generator yields.
\<close>

definition stringMap_entry :: "'r options \<Rightarrow> (exn + val) option" where
  "stringMap_entry options =
     (case (keyName options, stringMap options) of
        (Some k, Some sm) \<Rightarrow> if k \<noteq> [] then sm k else None
      | _ \<Rightarrow> None)"

definition parseString :: "'r lib \<Rightarrow> check list \<Rightarrow> 'r options \<Rightarrow> ('r, val) comp" where
  "parseString L checks options =
     (let a = fakerInstance options in
      case regexCheck checks of
        Some re \<Rightarrow>
          and_then (on_faker a (randexp_gen L re (regexMax checks)))
            (\<lambda>genRegString. ret (VStr genRegString))
      | None \<Rightarrow>
          (case stringMap_entry options of
             Some generated \<Rightarrow> (\<lambda>w. Some (generated, w))
           | None \<Rightarrow>
               (let so = stringOptions checks;
                    sorted = sortedStringOptions so
                in and_then (on_faker a (number_int L (fst sorted) (snd sorted))) (\<lambda>targetStringLength w.
                     (let gens = stringGenerators L targetStringLength (now w) in
                      case stringType gens (map_option toLowerCase (keyName options)) checks of
                        Some (genKey, g) \<Rightarrow> finishString L a g targetStringLength so w
                      | None \<Rightarrow>
                          and_then
                            (case keyName options of
                               Some k \<Rightarrow>
                                 if k \<noteq> [] then findMatchingFaker L k (faker options) (mockeryMapper options)
                                 else ret None
                             | None \<Rightarrow> ret None)
                            (\<lambda>foundFaker.
                               finishString L a
                                 (case foundFaker of Some g \<Rightarrow> g
                                  | None \<Rightarrow> defaultGenerator L targetStringLength)
                                 targetStringLength so) w)))))"

definition parseBoolean :: "'r lib \<Rightarrow> 'r options \<Rightarrow> ('r, val) comp" where
  "parseBoolean L options =
     and_then (on_faker (fakerInstance options) (total (datatype_boolean L))) (\<lambda>b. ret (VBool b))"

text \<open>
  The \<^verbatim>\<open>forEach\<close> over the checks of a date. A \<^verbatim>\<open>Date\<close> or a number that is not NaN sets the
  bound (the last one wins); anything else is reported with \<^verbatim>\<open>console.warn\<close>.
\<close>

fun dateBounds ::
  "date_check list \<Rightarrow> int option \<times> int option \<times> string list \<Rightarrow> int option \<times> int option \<times> string list" where
  "dateBounds [] acc = acc"
| "dateBounds (DateMin v # cs) (mn, mx, warns) =
     (case v of
        VDate t \<Rightarrow> dateBounds cs (Some t, mx, warns)
      | VNum t \<Rightarrow> dateBounds cs (Some t, mx, warns)
      | _ \<Rightarrow> dateBounds cs (mn, mx, warns @ [''Invalid min date value'']))"
| "dateBounds (DateMax v # cs) (mn, mx, warns) =
     (case v of
        VDate t \<Rightarrow> dateBounds cs (mn, Some t, warns)
      | VNum t \<Rightarrow> dateBounds cs (mn, Some t, warns)
      | _ \<Rightarrow> dateBounds cs (mn, mx, warns @ [''Invalid max date value'']))"

text \<open>The \<^verbatim>\<open>try\<close> block of \<^verbatim>\<open>parseDate\<close>: an error of the library is logged and gives \<^verbatim>\<open>undefined\<close>.\<close>

definition date_or_undefined :: "nat \<Rightarrow> ('r \<Rightarrow> (exn + int) \<times> 'r) \<Rightarrow> ('r, val) comp" where
  "date_or_undefined a g w =
     (case on_faker a g w of
        Some (Inr t, w') \<Rightarrow> Some (Inr (VDate t), w')
      | Some (Inl e, w') \<Rightarrow> Some (Inr VUndefined, log_line ''Error generating date:'' w')
      | None \<Rightarrow> None)"

definition parseDate :: "'r lib \<Rightarrow> date_check list \<Rightarrow> 'r options \<Rightarrow> ('r, val) comp" where
  "parseDate L checks options w =
     (let a = fakerInstance options in
      case dateBounds checks (None, None, []) of
        (mn, mx, warns) \<Rightarrow>
          (let w1 = w\<lparr>console := console w @ warns\<rparr> in
           case (mn, mx) of
             (Some lo, Some hi) \<Rightarrow>
               if lo > hi then ret VUndefined w1
               else date_or_undefined a (date_between L lo hi) w1
           | (Some lo, None) \<Rightarrow> date_or_undefined a (date_soon L lo) w1
           | (None, Some hi) \<Rightarrow> date_or_undefined a (date_recent L None hi) w1
           | (None, None) \<Rightarrow> date_or_undefined a (date_recent L (Some 30) (now w1)) w1))"

fun fakerOptions_step :: "int option \<times> int option \<Rightarrow> check \<Rightarrow> int option \<times> int option" where
  "fakerOptions_step (mn, mx) (MinCheck v) = (Some v, mx)"
| "fakerOptions_step (mn, mx) (MaxCheck v) = (mn, Some v)"
| "fakerOptions_step (mn, mx) _ = (mn, mx)"

definition parseNumber :: "'r lib \<Rightarrow> check list \<Rightarrow> 'r options \<Rightarrow> ('r, val) comp" where
  "parseNumber L checks options =
     (let fakerOptions = foldl fakerOptions_step (None, None) checks
      in and_then (on_faker (fakerInstance options) (number_int L (fst fakerOptions) (snd fakerOptions)))
           (\<lambda>n. ret (VNum n)))"

text \<open>\<^verbatim>\<open>faker.helpers.arrayElement(values)\<close>; reading past the end of an array gives \<^verbatim>\<open>undefined\<close>.\<close>

definition parseEnum :: "'r lib \<Rightarrow> val list \<Rightarrow> 'r options \<Rightarrow> ('r, val) comp" where
  "parseEnum L values options =
     and_then (on_faker (fakerInstance options) (arrayElement L (length values)))
       (\<lambda>i. ret (if i < length values then values ! i else VUndefined))"

definition parseNativeEnum :: "'r lib \<Rightarrow> val list \<Rightarrow> 'r options \<Rightarrow> ('r, val) comp" where
  "parseNativeEnum L values options =
     and_then (on_faker (fakerInstance options) (arrayElement L (length values)))
       (\<lambda>i. ret (if i < length values then values ! i else VUndefined))"

definition parseLiteral :: "val \<Rightarrow> ('r, val) comp" where
  "parseLiteral v = ret v"

text \<open>\<^verbatim>\<open>parseUuid\<close> calls the module-level \<^verbatim>\<open>faker\<close>, whatever instance the options carry.\<close>

definition parseUuid :: "'r lib \<Rightarrow> 'r options \<Rightarrow> ('r, val) comp" where
  "parseUuid L options = on_faker 0 (string_uuid L)"

section \<open>Composite synthesizers\<close>

text \<open>
  Every composite synthesizer calls back into \<^verbatim>\<open>generateMock\<close> for its children. In the
  model that entry point is the parameter \<open>gm\<close>; \<open>generateMock\<close> below ties the knot.
\<close>

type_synonym 'r entry = "schema \<Rightarrow> 'r options \<Rightarrow> ('r, val) comp"

text \<open>\<^verbatim>\<open>Object.keys(shape).reduce(...)\<close>: each field is generated with its name as \<^verbatim>\<open>keyName\<close>.\<close>

primrec parseObject_fields ::
  "'r entry \<Rightarrow> 'r options \<Rightarrow> (string \<times> schema) list \<Rightarrow> (string \<times> val) list \<Rightarrow> ('r, val) comp" where
  "parseObject_fields gm options [] carry = ret (VObj carry)"
| "parseObject_fields gm options (f # fs) carry =
     and_then (gm (snd f) (options\<lparr>keyName := Some (fst f), backupMocks := backupMocks options\<rparr>))
       (\<lambda>v. parseObject_fields gm options fs (obj_set carry (fst f) v))"

definition parseObject :: "'r entry \<Rightarrow> schema \<Rightarrow> 'r options \<Rightarrow> ('r, val) comp" where
  "parseObject gm zodRef options =
     (case zodRef of
        ZodObject shape \<Rightarrow> parseObject_fields gm options shape []
      | _ \<Rightarrow> throw (RuntimeFault ''TypeError''))"

text \<open>
  \<^verbatim>\<open>new Array(recordKeysLength).fill(null).reduce(...)\<close>: a fixed number of rounds, each
  generating a key and a value and storing the value under the key's property name.
\<close>

primrec record_rounds ::
  "'r entry \<Rightarrow> (int \<Rightarrow> string) \<Rightarrow> schema \<Rightarrow> schema \<Rightarrow> 'r options \<Rightarrow> nat \<Rightarrow> (string \<times> val) list
     \<Rightarrow> ('r, val) comp" where
  "record_rounds gm d keySchema valueSchema options 0 prev = ret (VObj prev)"
| "record_rounds gm d keySchema valueSchema options (Suc k) prev =
     and_then (gm keySchema options) (\<lambda>key.
       and_then (gm valueSchema options) (\<lambda>v.
         record_rounds gm d keySchema valueSchema options k (obj_set prev (toStr d key) v)))"

definition recordTarget :: "'r options \<Rightarrow> int" where
  "recordTarget options =
     (case recordKeysLength options of None \<Rightarrow> 1 | Some k \<Rightarrow> if k = 0 then 1 else k)"

definition parseRecord :: "'r entry \<Rightarrow> 'r lib \<Rightarrow> schema \<Rightarrow> 'r options \<Rightarrow> ('r, val) comp" where
  "parseRecord gm L zodRef options =
     (case zodRef of
        ZodRecord keySchema valueSchema \<Rightarrow>
          if recordTarget options < 0 \<or> recordTarget options > 4294967295
          then throw (RuntimeFault ''RangeError: Invalid array length'')
          else record_rounds gm (date_toString L) keySchema valueSchema options
                 (nat (recordTarget options)) []
      | _ \<Rightarrow> throw (RuntimeFault ''TypeError''))"

definition parseOptional :: "'r entry \<Rightarrow> schema \<Rightarrow> 'r options \<Rightarrow> ('r, val) comp" where
  "parseOptional gm inner options = gm inner options"

text \<open>
  The \<^verbatim>\<open>for\<close> loop of \<^verbatim>\<open>parseArray\<close>: \<open>k\<close> elements are still to be pushed. An element whose
  tag is \<^verbatim>\<open>ZodUndefined\<close> comes from the \<^verbatim>\<open>backupMocks\<close> entry of that tag when there is one.
\<close>

primrec array_loop ::
  "'r entry \<Rightarrow> schema \<Rightarrow> 'r options \<Rightarrow> nat \<Rightarrow> val list \<Rightarrow> ('r, val) comp" where
  "array_loop gm element options 0 results = ret (VArr results)"
| "array_loop gm element options (Suc k) results =
     and_then
       (case (if typeName element = ''ZodUndefined'' then backupMock options ''ZodUndefined'' else None) of
          Some f \<Rightarrow> call_backup f element
        | None \<Rightarrow> gm element (options\<lparr>backupMocks := backupMocks options\<rparr>))
       (\<lambda>v. array_loop gm element options k (results @ [v]))"

definition parseArray_body :: "'r entry \<Rightarrow> 'r lib \<Rightarrow> schema \<Rightarrow> 'r options \<Rightarrow> ('r, val) comp" where
  "parseArray_body gm L zodRef options =
     (case zodRef of
        ZodArray element minLength maxLength exactLength \<Rightarrow>
          (let mn = (case minLength of Some v \<Rightarrow> v
                     | None \<Rightarrow> (case exactLength of Some v \<Rightarrow> v | None \<Rightarrow> 0));
               mx = (case maxLength of Some v \<Rightarrow> v
                     | None \<Rightarrow> (case exactLength of Some v \<Rightarrow> v | None \<Rightarrow> 10));
               mn' = (if mn > mx then mx else mn)
           in and_then (on_faker (fakerInstance options) (number_int L (Some mn') (Some mx)))
                (\<lambda>targetLength. array_loop gm element options (nat targetLength) []))
      | _ \<Rightarrow> throw (RuntimeFault ''TypeError''))"

definition parseArray :: "'r entry \<Rightarrow> 'r lib \<Rightarrow> schema \<Rightarrow> 'r options \<Rightarrow> ('r, val) comp" where
  "parseArray gm L = depthControlled (parseArray_body gm L)"

text \<open>
  The \<^verbatim>\<open>while\<close> loops of \<^verbatim>\<open>parseSet\<close> and \<^verbatim>\<open>parseMap\<close> run until the collection has the
  target size; nothing bounds them, so in the model they run on fuel.
\<close>

primrec set_loop ::
  "nat \<Rightarrow> 'r entry \<Rightarrow> schema \<Rightarrow> 'r options \<Rightarrow> int \<Rightarrow> val list \<Rightarrow> ('r, val) comp" where
  "set_loop 0 gm valueType options targetLength results =
     (if int (length results) < targetLength then (\<lambda>w. None) else ret (VSet results))"
| "set_loop (Suc k) gm valueType options targetLength results =
     (if int (length results) < targetLength
      then and_then (gm valueType options)
             (\<lambda>v. set_loop k gm valueType options targetLength (set_add results v))
      else ret (VSet results))"

definition parseSet_body ::
  "nat \<Rightarrow> 'r entry \<Rightarrow> 'r lib \<Rightarrow> schema \<Rightarrow> 'r options \<Rightarrow> ('r, val) comp" where
  "parseSet_body fuel gm L zodRef options =
     (case zodRef of
        ZodSet valueType minSize maxSize \<Rightarrow>
          (let mn = (case minSize of Some v \<Rightarrow> v | None \<Rightarrow> 1);
               mx = (case maxSize of Some v \<Rightarrow> v | None \<Rightarrow> 5);
               mn' = (if mn > mx then mx else mn)
           in and_then (on_faker (fakerInstance options) (number_int L (Some mn') (Some mx)))
                (\<lambda>targetLength. set_loop fuel gm valueType options targetLength []))
      | _ \<Rightarrow> throw (RuntimeFault ''TypeError''))"

primrec map_loop ::
  "nat \<Rightarrow> 'r entry \<Rightarrow> schema \<Rightarrow> schema \<Rightarrow> 'r options \<Rightarrow> int \<Rightarrow> (val \<times> val) list \<Rightarrow> ('r, val) comp" where
  "map_loop 0 gm keyType valueType options targetLength results =
     (if int (length results) < targetLength then (\<lambda>w. None) else ret (VMap results))"
| "map_loop (Suc k) gm keyType valueType options targetLength results =
     (if int (length results) < targetLength
      then and_then (gm keyType options) (\<lambda>key.
             and_then (gm valueType options) (\<lambda>v.
               map_loop k gm keyType valueType options targetLength (map_set results key v)))
      else ret (VMap results))"

definition mapTarget :: "'r options \<Rightarrow> int" where
  "mapTarget options = (case mapEntriesLength options of None \<Rightarrow> 1 | Some k \<Rightarrow> k)"

definition parseMap_body :: "nat \<Rightarrow> 'r entry \<Rightarrow> schema \<Rightarrow> 'r options \<Rightarrow> ('r, val) comp" where
  "parseMap_body fuel gm zodRef options =
     (case zodRef of
        ZodMap keyType valueType \<Rightarrow> map_loop fuel gm keyType valueType options (mapTarget options) []
      | _ \<Rightarrow> throw (RuntimeFault ''TypeError''))"

text \<open>
  Unions pick one alternative with \<^verbatim>\<open>arrayElement\<close>. An index past the end would make the
  choice \<^verbatim>\<open>undefined\<close>, and \<^verbatim>\<open>generateMock(undefined)\<close> logs the TypeError it catches and
  returns \<^verbatim>\<open>undefined\<close>.
\<close>

definition parseUnion :: "'r entry \<Rightarrow> 'r lib \<Rightarrow> schema list \<Rightarrow> 'r options \<Rightarrow> ('r, val) comp" where
  "parseUnion gm L potentialCases options =
     and_then (on_faker (fakerInstance options) (arrayElement L (length potentialCases)))
       (\<lambda>i. if i < length potentialCases then gm (potentialCases ! i) options
            else (\<lambda>w. Some (Inr VUndefined, log_line ''TypeError'' w)))"

definition parseDiscriminatedUnion ::
  "'r entry \<Rightarrow> 'r lib \<Rightarrow> schema list \<Rightarrow> 'r options \<Rightarrow> ('r, val) comp" where
  "parseDiscriminatedUnion gm L potentialCases options =
     and_then (on_faker (fakerInstance options) (arrayElement L (length potentialCases)))
       (\<lambda>i. if i < length potentialCases then gm (potentialCases ! i) options
            else (\<lambda>w. Some (Inr VUndefined, log_line ''TypeError'' w)))"

definition parseTransform :: "'r entry \<Rightarrow> schema \<Rightarrow> effect \<Rightarrow> 'r options \<Rightarrow> ('r, val) comp" where
  "parseTransform gm inner eff options =
     and_then (gm inner options) (\<lambda>input.
       case eff of
         Transform f \<Rightarrow> (\<lambda>w. Some (f input, w))
       | _ \<Rightarrow> ret input)"

definition parseZodIntersection :: "'r entry \<Rightarrow> schema \<Rightarrow> schema \<Rightarrow> 'r options \<Rightarrow> ('r, val) comp" where
  "parseZodIntersection gm l r options =
     and_then (gm l options) (\<lambda>left.
       and_then (gm r options) (\<lambda>right w. Some (object_assign left right, w)))"

primrec tuple_items :: "'r entry \<Rightarrow> 'r options \<Rightarrow> schema list \<Rightarrow> val list \<Rightarrow> ('r, val list) comp" where
  "tuple_items gm options [] results = ret results"
| "tuple_items gm options (d # ds) results =
     and_then (gm d options) (\<lambda>v. tuple_items gm options ds (results @ [v]))"

text \<open>\<^verbatim>\<open>...(next ?? [])\<close>: the elements of the array, nothing for \<^verbatim>\<open>undefined\<close> or \<^verbatim>\<open>null\<close>.\<close>

fun spread :: "val \<Rightarrow> val list" where
  "spread (VArr xs) = xs"
| "spread _ = []"

definition parseZodTuple ::
  "'r entry \<Rightarrow> 'r lib \<Rightarrow> schema list \<Rightarrow> schema option \<Rightarrow> 'r options \<Rightarrow> ('r, val) comp" where
  "parseZodTuple gm L items rest options =
     and_then (tuple_items gm options items []) (\<lambda>results.
       case rest of
         None \<Rightarrow> ret (VArr results)
       | Some r \<Rightarrow>
           and_then (parseArray gm L (ZodArray r None None None) options)
             (\<lambda>next. ret (VArr (results @ spread next))))"

text \<open>The stub; calling it later generates a value for the return type.\<close>

definition parseZodFunction :: "schema \<Rightarrow> 'r options \<Rightarrow> ('r, val) comp" where
  "parseZodFunction returns options = ret VFunc"

definition zodMockFunction :: "'r entry \<Rightarrow> schema \<Rightarrow> 'r options \<Rightarrow> ('r, val) comp" where
  "zodMockFunction gm returns options = gm returns options"

definition parseZodDefault :: "'r entry \<Rightarrow> 'r lib \<Rightarrow> val \<Rightarrow> schema \<Rightarrow> 'r options \<Rightarrow> ('r, val) comp" where
  "parseZodDefault gm L defaultValue innerType options =
     and_then (on_faker (fakerInstance options) (total (datatype_boolean L)))
       (\<lambda>b. if b then ret defaultValue else gm innerType options)"

definition parseZodPromise :: "'r entry \<Rightarrow> schema \<Rightarrow> 'r options \<Rightarrow> ('r, val) comp" where
  "parseZodPromise gm inner options = and_then (gm inner options) (\<lambda>v. ret (VPromise v))"

definition parseBranded :: "'r entry \<Rightarrow> schema \<Rightarrow> 'r options \<Rightarrow> ('r, val) comp" where
  "parseBranded gm inner options = gm inner options"

definition parseLazy :: "'r entry \<Rightarrow> schema \<Rightarrow> 'r options \<Rightarrow> ('r, val) comp" where
  "parseLazy gm zodRef options =
     (case zodRef of
        ZodLazy getter \<Rightarrow> gm (getter ()) options
      | _ \<Rightarrow> throw (RuntimeFault ''TypeError''))"

section \<open>The registry and the entry point\<close>

text \<open>The keys of \<^verbatim>\<open>workerMap\<close>.\<close>

definition workerMap_keys :: "string list" where
  "workerMap_keys =
     [''ZodObject'', ''ZodRecord'', ''ZodArray'', ''ZodSet'', ''ZodMap'', ''ZodLazy'', ''ZodUnion'',
      ''ZodIntersection'', ''ZodDiscriminatedUnion'', ''ZodOptional'', ''ZodNullable'',
      ''ZodTransformer'', ''ZodEffects'', ''ZodFunction'', ''ZodPromise'', ''ZodTuple'', ''ZodString'',
      ''ZodNumber'', ''ZodBigInt'', ''ZodBoolean'', ''ZodDate'', ''ZodEnum'', ''ZodNativeEnum'',
      ''ZodLiteral'', ''ZodBranded'', ''ZodNull'', ''ZodNaN'', ''ZodDefault'', ''ZodVoid'',
      ''ZodUndefined'', ''ZodUuid'']"

text \<open>
  \<^verbatim>\<open>workerMap[typeName](schema, options)\<close> for a node whose tag is a key of the registry.
  The tag of a node built with a constructor other than \<open>ZodOther\<close> is that
  constructor's; a \<open>ZodOther\<close> node that borrows a registry tag has none of the fields
  the worker reads.
\<close>

definition workerMap :: "nat \<Rightarrow> 'r entry \<Rightarrow> 'r lib \<Rightarrow> schema \<Rightarrow> 'r options \<Rightarrow> ('r, val) comp" where
  "workerMap fuel gm L zodRef options =
     (case zodRef of
        ZodObject _ \<Rightarrow> depthControlled (parseObject gm) zodRef options
      | ZodRecord _ _ \<Rightarrow> depthControlled (parseRecord gm L) zodRef options
      | ZodArray _ _ _ _ \<Rightarrow> parseArray gm L zodRef options
      | ZodSet _ _ _ \<Rightarrow> depthControlled (parseSet_body fuel gm L) zodRef options
      | ZodMap _ _ \<Rightarrow> depthControlled (parseMap_body fuel gm) zodRef options
      | ZodLazy _ \<Rightarrow> depthControlled (parseLazy gm) zodRef options
      | ZodUnion cases \<Rightarrow> parseUnion gm L cases options
      | ZodIntersection l r \<Rightarrow> parseZodIntersection gm l r options
      | ZodDiscriminatedUnion cases \<Rightarrow> parseDiscriminatedUnion gm L cases options
      | ZodOptional inner \<Rightarrow> parseOptional gm inner options
      | ZodNullable inner \<Rightarrow> parseOptional gm inner options
      | ZodTransformer inner eff \<Rightarrow> parseTransform gm inner eff options
      | ZodEffects inner eff \<Rightarrow> parseTransform gm inner eff options
      | ZodFunction returns \<Rightarrow> parseZodFunction returns options
      | ZodPromise inner \<Rightarrow> parseZodPromise gm inner options
      | ZodTuple items rest \<Rightarrow> parseZodTuple gm L items rest options
      | ZodString checks \<Rightarrow> parseString L checks options
      | ZodNumber checks \<Rightarrow> parseNumber L checks options
      | ZodBigInt checks \<Rightarrow> parseNumber L checks options
      | ZodBoolean \<Rightarrow> parseBoolean L options
      | ZodDate checks \<Rightarrow> parseDate L checks options
      | ZodEnum values \<Rightarrow> parseEnum L values options
      | ZodNativeEnum values \<Rightarrow> parseNativeEnum L values options
      | ZodLiteral v \<Rightarrow> parseLiteral v
      | ZodBranded inner \<Rightarrow> parseBranded gm inner options
      | ZodNull \<Rightarrow> ret VNull
      | ZodNaN \<Rightarrow> ret VUndefined
      | ZodDefault defaultValue innerType \<Rightarrow> parseZodDefault gm L defaultValue innerType options
      | ZodVoid \<Rightarrow> ret VUndefined
      | ZodUndefined \<Rightarrow> ret VUndefined
      | ZodUuid \<Rightarrow> parseUuid L options
      | ZodOther _ \<Rightarrow> throw (RuntimeFault ''TypeError''))"

text \<open>
  \<^verbatim>\<open>workerMap[typeName](schema, options)\<close> for a tag that is no key of the registry but names
  a member inherited from \<^verbatim>\<open>Object.prototype\<close>. The member is called as a plain function, so
  \<^verbatim>\<open>this\<close> is \<^verbatim>\<open>undefined\<close>: \<^verbatim>\<open>toString\<close> returns the text for \<^verbatim>\<open>undefined\<close>, \<^verbatim>\<open>constructor\<close> (that
  is \<^verbatim>\<open>Object\<close>) returns its first argument, the schema node; the other methods convert
  \<^verbatim>\<open>this\<close> to an object and throw a TypeError; \<^verbatim>\<open>__proto__\<close> is an object, and calling it
  throws a TypeError.
\<close>

definition inherited_call :: "string \<Rightarrow> ('r, val) comp" where
  "inherited_call t =
     (if t = ''toString'' then ret (VStr ''[object Undefined]'')
      else if t = ''constructor'' then ret VSchemaRef
      else throw (RuntimeFault ''TypeError''))"

text \<open>
  The body of the \<^verbatim>\<open>try\<close> block of \<^verbatim>\<open>generateMock\<close>. \<^verbatim>\<open>workerMap[typeName]\<close> is a property
  read on an object literal: it finds the registry's own keys and the inherited names.
\<close>

definition dispatch :: "nat \<Rightarrow> 'r entry \<Rightarrow> 'r lib \<Rightarrow> schema \<Rightarrow> 'r options \<Rightarrow> ('r, val) comp" where
  "dispatch fuel gm L zodRef defaultOptions =
     (case (if typeName zodRef = ''ZodUndefined'' then backupMock defaultOptions ''ZodUndefined''
            else None) of
        Some f \<Rightarrow> call_backup f zodRef
      | None \<Rightarrow>
          if typeName zodRef \<in> set workerMap_keys
          then workerMap fuel gm L zodRef
                 (defaultOptions\<lparr>backupMocks := backupMocks defaultOptions,
                                 maxDepth := maxDepth defaultOptions\<rparr>)
          else if typeName zodRef \<in> set objectPrototype_keys
          then inherited_call (typeName zodRef)
          else (case backupMock defaultOptions (typeName zodRef) of
                  Some f \<Rightarrow> call_backup f zodRef
                | None \<Rightarrow>
                    if throwOnUnknownType defaultOptions = Some True
                    then throw (ZodMockError (typeName zodRef))
                    else ret VUndefined))"

text \<open>
  The \<^verbatim>\<open>catch\<close> clause: a \<^verbatim>\<open>ZodMockError\<close> is thrown again, anything else is written to
  \<^verbatim>\<open>console.error\<close> and becomes \<^verbatim>\<open>undefined\<close>.
\<close>

definition try_catch :: "('r, val) comp \<Rightarrow> ('r, val) comp" where
  "try_catch body w =
     (case body w of
        None \<Rightarrow> None
      | Some (Inr v, w') \<Rightarrow> Some (Inr v, w')
      | Some (Inl (ZodMockError t), w') \<Rightarrow> Some (Inl (ZodMockError t), w')
      | Some (Inl (RuntimeFault m), w') \<Rightarrow> Some (Inr VUndefined, log_line m w'))"

text \<open>
  \<^verbatim>\<open>new Faker({ locale: [en] })\<close>: the object literal of the defaults constructs an instance
  on every call, whether or not the options then replace it.
\<close>

definition new_Faker :: "'r lib \<Rightarrow> 'r world \<Rightarrow> nat \<times> 'r world" where
  "new_Faker L w =
     (let a = Suc (allocated w)
      in (a, w\<lparr>fakers := (fakers w)(a := new_faker L a), allocated := a\<rparr>))"

definition withDefaults :: "nat \<Rightarrow> 'r options \<Rightarrow> 'r options" where
  "withDefaults a options =
     options\<lparr>maxDepth := Some (case maxDepth options of None \<Rightarrow> Depth 10 | Some m \<Rightarrow> m),
             currentDepth := Some (case currentDepth options of None \<Rightarrow> Depth 0 | Some d \<Rightarrow> d),
             faker := Some (case faker options of None \<Rightarrow> a | Some b \<Rightarrow> b)\<rparr>"

definition seed_instance :: "'r lib \<Rightarrow> 'r options \<Rightarrow> 'r world \<Rightarrow> 'r world" where
  "seed_instance L defaultOptions w =
     (case seed defaultOptions of
        None \<Rightarrow> w
      | Some s \<Rightarrow>
          w\<lparr>fakers := (fakers w)(fakerInstance defaultOptions :=
                         faker_seed L s (fakers w (fakerInstance defaultOptions)))\<rparr>)"

text \<open>
  \<^verbatim>\<open>generateMock\<close>. The fuel bounds the depth of the calls back into the entry point and
  the rounds of the \<^verbatim>\<open>while\<close> loops; \<open>None\<close> means it ran out.
\<close>

primrec generateMock :: "nat \<Rightarrow> 'r lib \<Rightarrow> schema \<Rightarrow> 'r options \<Rightarrow> ('r, val) comp" where
  "generateMock 0 L zodRef options w = None"
| "generateMock (Suc fuel) L zodRef options w =
     (case new_Faker L w of
        (a, w0) \<Rightarrow>
          (let defaultOptions = withDefaults a options
           in try_catch (dispatch fuel (generateMock fuel L) L zodRef defaultOptions)
                (seed_instance L defaultOptions w0)))"

section \<open>A small instance of the library\<close>

text \<open>
  To run the model on concrete inputs the library parameter needs a value. \<open>stub_lib\<close> is a
  deterministic stand-in whose instance state is a counter: every draw is computed from
  the counter and increments it, seeding sets it. It keeps the library's contracts
  (\<^verbatim>\<open>number.int\<close> stays within its bounds and throws when \<^verbatim>\<open>max < min\<close>, \<^verbatim>\<open>string.alpha\<close> has
  the requested length, \<^verbatim>\<open>date.between\<close> stays within its bounds, \<^verbatim>\<open>arrayElement\<close> throws on
  an empty array).
\<close>

definition stub_int :: "int option \<Rightarrow> int option \<Rightarrow> nat \<Rightarrow> (exn + int) \<times> nat" where
  "stub_int mn mx r =
     (let lo = (case mn of None \<Rightarrow> 0 | Some v \<Rightarrow> v);
          hi = (case mx of None \<Rightarrow> 9007199254740991 | Some v \<Rightarrow> v)
      in if hi < lo then (Inl (RuntimeFault ''FakerError: Max should be greater than min''), r)
         else (Inr (lo + int r mod (hi - lo + 1)), Suc r))"

definition stub_str :: "string \<Rightarrow> nat gen" where
  "stub_str s r = (Inr (VStr (s @ string_of_nat r)), Suc r)"

definition stub_lib :: "nat lib" where
  "stub_lib =
     \<lparr>new_faker = (\<lambda>k. 1000 * k),
      faker_seed = (\<lambda>s r. case s of SeedNum n \<Rightarrow> nat (abs n) | SeedArr ns \<Rightarrow> nat (abs (sum_list ns))),
      number_int = stub_int,
      datatype_boolean = (\<lambda>r. (even r, Suc r)),
      lorem_word = (\<lambda>len r. (Inr (VStr (case len of None \<Rightarrow> ''lorem''
                                          | Some n \<Rightarrow> replicate (nat n) CHR ''a'')), Suc r)),
      string_alpha = (\<lambda>n r. (replicate (nat n) CHR ''x'', Suc r)),
      string_uuid = stub_str ''uuid-'',
      internet_email = stub_str ''user@example.com/'',
      internet_url = stub_str ''https://example.com/'',
      internet_color = stub_str ''#'',
      person_fullName = stub_str ''Jane Doe '',
      phone_number = stub_str ''555-'',
      image_url = stub_str ''https://example.com/img/'',
      number_float = stub_str ''0.'',
      number_hex = stub_str ''f'',
      location_city = stub_str ''City '',
      date_between = (\<lambda>lo hi. stub_int (Some lo) (Some hi)),
      date_soon = (\<lambda>ref. stub_int (Some ref) (Some (ref + 86400000))),
      date_recent = (\<lambda>days ref. stub_int
                       (Some (ref - 86400000 * (case days of None \<Rightarrow> 1 | Some d \<Rightarrow> d))) (Some ref)),
      arrayElement = (\<lambda>n r. if n = 0 then (Inl (RuntimeFault ''FakerError: empty array''), r)
                             else (Inr (r mod n), Suc r)),
      sections = [(''company'', [(''name'', Fn (stub_str ''ACME '')), (''suffixes'', NotFn)])],
      randexp_gen = (\<lambda>re mx r. (Inr (''re'' @ string_of_nat r), Suc r)),
      date_toString = (\<lambda>t. ''Date '' @ string_of_int t),
      date_toISOString = (\<lambda>t. ''ISO '' @ string_of_int t)\<rparr>"

text \<open>The options object \<^verbatim>\<open>{}\<close> and a world in which nothing has happened yet.\<close>

definition emptyOptions :: "'r options" where
  "emptyOptions =
     \<lparr>keyName = None, stringMap = None, mockeryMapper = None, backupMocks = None,
      recordKeysLength = None, mapEntriesLength = None, throwOnUnknownType = None,
      seed = None, faker = None, currentDepth = None, maxDepth = None\<rparr>"

definition world0 :: "nat world" where
  "world0 = \<lparr>fakers = (\<lambda>a. 2), allocated = 0, console = [], now = 1700000000000\<rparr>"

text \<open>
  Inputs used to run the model: two \<^verbatim>\<open>backupMocks\<close> tables, a transform that throws and a
  \<^verbatim>\<open>stringMap\<close>.
\<close>

definition notUndefined :: "string \<Rightarrow> (schema \<Rightarrow> exn + val) option" where
  "notUndefined t =
     (if t = ''ZodUndefined'' then Some (\<lambda>zodRef. Inr (VStr ''not undefined'')) else None)"

definition anyValue :: "string \<Rightarrow> (schema \<Rightarrow> exn + val) option" where
  "anyValue t = (if t = ''ZodAny'' then Some (\<lambda>zodRef. Inr (VStr ''any value'')) else None)"

definition boom :: "val \<Rightarrow> exn + val" where
  "boom input = Inl (RuntimeFault ''boom'')"

definition lockedMap :: "string \<Rightarrow> (exn + val) option" where
  "lockedMap k = (if k = ''locked'' then Some (Inr (VStr ''value set'')) else None)"

section \<open>Vocabulary of the properties\<close>

text \<open>
  The depth and ceiling a synthesizer sees: the property's value, or the default 0 or 10
  when the property is absent.
\<close>

definition effDepth :: "'r options \<Rightarrow> depth" where
  "effDepth options = (case currentDepth options of None \<Rightarrow> Depth 0 | Some d \<Rightarrow> d)"

definition effMax :: "'r options \<Rightarrow> depth" where
  "effMax options = (case maxDepth options of None \<Rightarrow> Depth 10 | Some d \<Rightarrow> d)"

text \<open>The nodes whose registry entry is built with \<^verbatim>\<open>depthControlled\<close>, and what it wraps.\<close>

fun depthGuarded :: "schema \<Rightarrow> bool" where
  "depthGuarded (ZodObject _) = True"
| "depthGuarded (ZodArray _ _ _ _) = True"
| "depthGuarded (ZodSet _ _ _) = True"
| "depthGuarded (ZodMap _ _) = True"
| "depthGuarded (ZodRecord _ _) = True"
| "depthGuarded (ZodLazy _) = True"
| "depthGuarded _ = False"

definition wrapped :: "nat \<Rightarrow> 'r entry \<Rightarrow> 'r lib \<Rightarrow> schema \<Rightarrow> 'r options \<Rightarrow> ('r, val) comp" where
  "wrapped fuel gm L zodRef =
     (case zodRef of
        ZodObject _ \<Rightarrow> parseObject gm zodRef
      | ZodRecord _ _ \<Rightarrow> parseRecord gm L zodRef
      | ZodArray _ _ _ _ \<Rightarrow> parseArray_body gm L zodRef
      | ZodSet _ _ _ \<Rightarrow> parseSet_body fuel gm L zodRef
      | ZodMap _ _ \<Rightarrow> parseMap_body fuel gm zodRef
      | _ \<Rightarrow> parseLazy gm zodRef)"



text \<open>
  Two invocations with the same node and options, one after the other in the same
  process: the second starts in the world the first has left (its faker instances and its
  console; the clock is taken to stand still between the two).
\<close>

definition invoke_twice ::
  "nat \<Rightarrow> 'r lib \<Rightarrow> schema \<Rightarrow> 'r options \<Rightarrow> 'r world \<Rightarrow> ((exn + val) \<times> (exn + val)) option" where
  "invoke_twice fuel L zodRef options w =
     (case generateMock fuel L zodRef options w of
        None \<Rightarrow> None
      | Some (first, w1) \<Rightarrow>
          (case generateMock fuel L zodRef options w1 of
             None \<Rightarrow> None
           | Some (second, w2) \<Rightarrow> Some (first, second)))"

text \<open>
  Two options objects that agree on everything except, possibly, the \<^verbatim>\<open>backupMocks\<close> entry
  of the tag \<open>t\<close>; and an entry point whose outcome (result and world) does not depend on
  that entry.
\<close>

definition same_but :: "string \<Rightarrow> 'r options \<Rightarrow> 'r options \<Rightarrow> bool" where
  "same_but t o1 o2 =
     (keyName o1 = keyName o2 \<and> stringMap o1 = stringMap o2
      \<and> mockeryMapper o1 = mockeryMapper o2
      \<and> recordKeysLength o1 = recordKeysLength o2 \<and> mapEntriesLength o1 = mapEntriesLength o2
      \<and> throwOnUnknownType o1 = throwOnUnknownType o2 \<and> seed o1 = seed o2
      \<and> faker o1 = faker o2 \<and> currentDepth o1 = currentDepth o2 \<and> maxDepth o1 = maxDepth o2
      \<and> (\<forall>k. k \<noteq> t \<longrightarrow> backupMock o1 k = backupMock o2 k))"

definition ignores :: "string \<Rightarrow> 'r entry \<Rightarrow> bool" where
  "ignores t gm = (\<forall>zodRef o1 o2. same_but t o1 o2 \<longrightarrow> gm zodRef o1 = gm zodRef o2)"

text \<open>
  What the properties below assume of the library: \<^verbatim>\<open>number.int({min, max})\<close> with
  \<^verbatim>\<open>min \<le> max\<close> returns an integer within the bounds; \<^verbatim>\<open>string.alpha({length})\<close> returns
  that many characters (none for a length below 1); \<^verbatim>\<open>date.between({from, to})\<close> with
  \<^verbatim>\<open>from \<le> to\<close> returns a date within the bounds.
\<close>

definition number_int_ok :: "'r lib \<Rightarrow> bool" where
  "number_int_ok L =
     (\<forall>lo hi r. lo \<le> hi \<longrightarrow>
        (\<exists>n r'. number_int L (Some lo) (Some hi) r = (Inr n, r') \<and> lo \<le> n \<and> n \<le> hi))"

definition string_alpha_ok :: "'r lib \<Rightarrow> bool" where
  "string_alpha_ok L = (\<forall>n r. length (fst (string_alpha L n r)) = nat n)"

definition date_between_ok :: "'r lib \<Rightarrow> bool" where
  "date_between_ok L =
     (\<forall>lo hi r. lo \<le> hi \<longrightarrow>
        (\<exists>t r'. date_between L lo hi r = (Inr t, r') \<and> lo \<le> t \<and> t \<le> hi))"

text \<open>
  The property keys a run of \<^verbatim>\<open>parseRecord\<close>'s rounds generates, in order: the same calls
  as \<open>record_rounds\<close>, keeping the keys instead of building the object.
\<close>

primrec record_keys ::
  "'r entry \<Rightarrow> (int \<Rightarrow> string) \<Rightarrow> schema \<Rightarrow> schema \<Rightarrow> 'r options \<Rightarrow> nat \<Rightarrow> ('r, string list) comp" where
  "record_keys gm d keySchema valueSchema options 0 = ret []"
| "record_keys gm d keySchema valueSchema options (Suc k) =
     and_then (gm keySchema options) (\<lambda>key.
       and_then (gm valueSchema options) (\<lambda>v.
         and_then (record_keys gm d keySchema valueSchema options k) (\<lambda>rest.
           ret (toStr d key # rest))))"

declare string_of_nat.simps [simp del]

section \<open>Unfolding the entry point\<close>

lemmas run_defs = dispatch_def try_catch_def call_backup_def backupMock_def
  emptyOptions_def withDefaults_def workerMap_keys_def workerMap_def ret_def throw_def and_then_def
  new_Faker_def seed_instance_def world0_def log_line_def fakerInstance_def on_faker_def total_def
  gen_map_def

lemma generateMock_Suc:
  "generateMock (Suc fuel) L zodRef options w =
     try_catch (dispatch fuel (generateMock fuel L) L zodRef (withDefaults (Suc (allocated w)) options))
       (seed_instance L (withDefaults (Suc (allocated w)) options) (snd (new_Faker L w)))"
  by (simp add: new_Faker_def Let_def)

declare generateMock.simps(2) [simp del]

lemma backupMock_withDefaults [simp]:
  "backupMock (withDefaults a options) t = backupMock options t"
  by (simp add: backupMock_def withDefaults_def)

lemma throwOnUnknownType_withDefaults [simp]:
  "throwOnUnknownType (withDefaults a options) = throwOnUnknownType options"
  by (simp add: withDefaults_def)

lemma registry_tag_cases:
  "t \<in> set workerMap_keys \<Longrightarrow> t \<noteq> ''ZodAny''"
  by (auto simp: workerMap_keys_def)

section \<open>Unknown type tags\<close>

text \<open>
  A node whose type tag is found neither by the property read on the registry (it is no
  key of \<^verbatim>\<open>workerMap\<close> and no name inherited from \<^verbatim>\<open>Object.prototype\<close>) nor in \<^verbatim>\<open>backupMocks\<close>:
  with \<^verbatim>\<open>throwOnUnknownType\<close> set to \<^verbatim>\<open>true\<close>, \<^verbatim>\<open>generateMock\<close> throws a \<^verbatim>\<open>ZodMockError\<close> carrying
  that tag; with the flag unset or \<^verbatim>\<open>false\<close> it returns \<^verbatim>\<open>undefined\<close>.
\<close>

lemma unknown_type_outside_lookup:
  assumes "typeName zodRef \<notin> set workerMap_keys"
    and "typeName zodRef \<notin> set objectPrototype_keys"
    and "backupMock options (typeName zodRef) = None"
  shows "\<exists>w'. generateMock (Suc fuel) L zodRef options w =
           Some (if throwOnUnknownType options = Some True
                 then Inl (ZodMockError (typeName zodRef)) else Inr VUndefined, w')"
proof -
  have ne: "typeName zodRef \<noteq> ''ZodUndefined''"
    using assms(1) by (auto simp: workerMap_keys_def)
  show ?thesis
    using assms ne
    by (simp add: generateMock_Suc dispatch_def try_catch_def throw_def ret_def)
qed

text \<open>
  Claim C5 fails on the code for a tag that names a member of \<^verbatim>\<open>Object.prototype\<close>. The tag
  \<^verbatim>\<open>toString\<close> has no synthesizer in the registry and no \<^verbatim>\<open>backupMocks\<close> entry, and
  \<^verbatim>\<open>throwOnUnknownType\<close> is \<^verbatim>\<open>true\<close>; the property read \<^verbatim>\<open>workerMap['toString']\<close> finds the
  inherited method, which is called: \<^verbatim>\<open>generateMock\<close> returns the string
  \<^verbatim>\<open>[object Undefined]\<close> and throws nothing.
\<close>

theorem unknown_type_inherited_member:
  "''toString'' \<notin> set workerMap_keys
   \<and> backupMock (emptyOptions\<lparr>throwOnUnknownType := Some True\<rparr> :: nat options) ''toString'' = None
   \<and> map_option fst (generateMock (Suc 0) stub_lib (ZodOther ''toString'')
                       (emptyOptions\<lparr>throwOnUnknownType := Some True\<rparr>) world0)
       = Some (Inr (VStr ''[object Undefined]''))"
  by (simp add: generateMock_Suc dispatch_def try_catch_def backupMock_def emptyOptions_def
      withDefaults_def workerMap_keys_def objectPrototype_keys_def inherited_call_def ret_def)

section \<open>Constant synthesizers\<close>

text \<open>
  Claim C9 as stated fails: an undefined-typed node is answered by the \<^verbatim>\<open>backupMocks\<close>
  entry for \<^verbatim>\<open>ZodUndefined\<close> when the caller supplies one, and the registry's entry for
  \<^verbatim>\<open>ZodNaN\<close> returns \<^verbatim>\<open>undefined\<close>, not NaN.
\<close>

theorem constant_synthesizers_counterexample:
  "map_option fst (generateMock (Suc 0) stub_lib ZodUndefined
                     (emptyOptions\<lparr>backupMocks := Some notUndefined\<rparr>) world0)
     = Some (Inr (VStr ''not undefined''))
   \<and> map_option fst (generateMock (Suc 0) stub_lib ZodNaN emptyOptions world0)
     = Some (Inr VUndefined)"
  by (simp add: generateMock_Suc dispatch_def try_catch_def call_backup_def notUndefined_def
      backupMock_def emptyOptions_def withDefaults_def workerMap_keys_def workerMap_def ret_def)

text \<open>
  Claim C9, amended. Whatever the library, the options and the world: a void-typed node
  yields \<^verbatim>\<open>undefined\<close> and a null-typed node yields \<^verbatim>\<open>null\<close>; an undefined-typed node yields
  \<^verbatim>\<open>undefined\<close> when \<^verbatim>\<open>backupMocks\<close> has no entry for \<^verbatim>\<open>ZodUndefined\<close>, and what that entry
  returns when it has one. No value is drawn from a faker instance: the result does not
  depend on the library or on the world.
\<close>

theorem constant_synthesizers:
  "map_option fst (generateMock (Suc fuel) L ZodVoid options w) = Some (Inr VUndefined)
   \<and> map_option fst (generateMock (Suc fuel) L ZodNull options w) = Some (Inr VNull)
   \<and> (backupMock options ''ZodUndefined'' = None \<longrightarrow>
        map_option fst (generateMock (Suc fuel) L ZodUndefined options w) = Some (Inr VUndefined))
   \<and> (\<forall>f v. backupMock options ''ZodUndefined'' = Some f \<and> f ZodUndefined = Inr v \<longrightarrow>
        map_option fst (generateMock (Suc fuel) L ZodUndefined options w) = Some (Inr v))"
  by (auto simp add: generateMock_Suc dispatch_def try_catch_def call_backup_def
      workerMap_keys_def workerMap_def ret_def)

theorem constant_synthesizers_witness:
  "backupMock (emptyOptions :: nat options) ''ZodUndefined'' = None
   \<and> map_option fst (generateMock (Suc 0) stub_lib ZodUndefined emptyOptions world0)
       = Some (Inr VUndefined)
   \<and> backupMock (emptyOptions\<lparr>backupMocks := Some notUndefined\<rparr> :: nat options) ''ZodUndefined''
       = Some (\<lambda>zodRef. Inr (VStr ''not undefined''))
   \<and> map_option fst (generateMock (Suc 0) stub_lib ZodUndefined
                       (emptyOptions\<lparr>backupMocks := Some notUndefined\<rparr>) world0)
       = Some (Inr (VStr ''not undefined''))"
proof -
  have a: "backupMock (emptyOptions :: nat options) ''ZodUndefined'' = None"
    by (simp add: backupMock_def emptyOptions_def)
  have b: "backupMock (emptyOptions\<lparr>backupMocks := Some notUndefined\<rparr> :: nat options) ''ZodUndefined''
             = Some (\<lambda>zodRef. Inr (VStr ''not undefined''))"
    by (simp add: backupMock_def notUndefined_def)
  show ?thesis
    using a b
      constant_synthesizers [of 0 stub_lib emptyOptions world0]
      constant_synthesizers [of 0 stub_lib "emptyOptions\<lparr>backupMocks := Some notUndefined\<rparr>" world0]
    by simp
qed

section \<open>Error containment\<close>

text \<open>
  Claim C6. No call of \<^verbatim>\<open>generateMock\<close> lets a runtime fault escape: when the body of its
  \<^verbatim>\<open>try\<close> block (the override or synthesizer it dispatches to, built-in or supplied by the
  caller) throws anything but a \<^verbatim>\<open>ZodMockError\<close>, the message is written to the console
  and the call returns \<^verbatim>\<open>undefined\<close>; a \<^verbatim>\<open>ZodMockError\<close> is passed on to the caller.
\<close>

theorem runtime_faults_contained:
  "(\<forall>m w'. generateMock fuel L zodRef options w \<noteq> Some (Inl (RuntimeFault m), w'))
   \<and> (\<forall>a w0 m w1.
        new_Faker L w = (a, w0)
        \<and> dispatch fuel (generateMock fuel L) L zodRef (withDefaults a options)
            (seed_instance L (withDefaults a options) w0) = Some (Inl (RuntimeFault m), w1)
        \<longrightarrow> generateMock (Suc fuel) L zodRef options w = Some (Inr VUndefined, log_line m w1))
   \<and> (\<forall>a w0 t w1.
        new_Faker L w = (a, w0)
        \<and> dispatch fuel (generateMock fuel L) L zodRef (withDefaults a options)
            (seed_instance L (withDefaults a options) w0) = Some (Inl (ZodMockError t), w1)
        \<longrightarrow> generateMock (Suc fuel) L zodRef options w = Some (Inl (ZodMockError t), w1))"
proof (intro conjI allI impI)
  fix m w'
  show "generateMock fuel L zodRef options w \<noteq> Some (Inl (RuntimeFault m), w')"
  proof (cases fuel)
    case 0
    then show ?thesis by simp
  next
    case (Suc n)
    show ?thesis
      unfolding Suc generateMock_Suc
      by (auto simp: try_catch_def split: option.splits sum.splits exn.splits prod.splits)
  qed
next
  fix a w0 m w1
  assume "new_Faker L w = (a, w0)
        \<and> dispatch fuel (generateMock fuel L) L zodRef (withDefaults a options)
            (seed_instance L (withDefaults a options) w0) = Some (Inl (RuntimeFault m), w1)"
  then show "generateMock (Suc fuel) L zodRef options w = Some (Inr VUndefined, log_line m w1)"
    by (simp add: generateMock.simps(2) try_catch_def)
next
  fix a w0 t w1
  assume "new_Faker L w = (a, w0)
        \<and> dispatch fuel (generateMock fuel L) L zodRef (withDefaults a options)
            (seed_instance L (withDefaults a options) w0) = Some (Inl (ZodMockError t), w1)"
  then show "generateMock (Suc fuel) L zodRef options w = Some (Inl (ZodMockError t), w1)"
    by (simp add: generateMock.simps(2) try_catch_def)
qed

theorem runtime_faults_contained_witness:
  "map_option (\<lambda>(r, w'). (r, console w'))
     (generateMock (Suc (Suc 0)) stub_lib (ZodEffects ZodNull (Transform boom)) emptyOptions world0)
   = Some (Inr VUndefined, [''boom''])"
proof -
  obtain a w0 where nf: "new_Faker stub_lib world0 = (a, w0)"
    by (cases "new_Faker stub_lib world0")
  have "\<exists>w1. dispatch (Suc 0) (generateMock (Suc 0) stub_lib) stub_lib
          (ZodEffects ZodNull (Transform boom)) (withDefaults a emptyOptions)
          (seed_instance stub_lib (withDefaults a emptyOptions) w0)
        = Some (Inl (RuntimeFault ''boom''), w1) \<and> console w1 = []"
    using nf by (auto simp add: generateMock_Suc run_defs parseTransform_def boom_def)
  then obtain w1 where d: "dispatch (Suc 0) (generateMock (Suc 0) stub_lib) stub_lib
          (ZodEffects ZodNull (Transform boom)) (withDefaults a emptyOptions)
          (seed_instance stub_lib (withDefaults a emptyOptions) w0)
        = Some (Inl (RuntimeFault ''boom''), w1)" and c: "console w1 = []" by blast
  from runtime_faults_contained
         [of "Suc 0" stub_lib "ZodEffects ZodNull (Transform boom)" emptyOptions world0]
  have "generateMock (Suc (Suc 0)) stub_lib (ZodEffects ZodNull (Transform boom)) emptyOptions world0
          = Some (Inr VUndefined, log_line ''boom'' w1)"
    using nf d by blast
  then show ?thesis using c by (simp add: log_line_def)
qed

section \<open>The depth guard on the registry\<close>

text \<open>
  For an object, array, set, map, record or lazy node, the registered synthesizer
  compares the current depth (0 when absent) with the ceiling (10 when absent). When the
  comparison holds it returns \<open>depthDefault\<close> of the node and leaves the world as it was,
  whatever the entry point \<open>gm\<close> would do: nothing is generated. When it does not hold, the
  registered synthesizer is the wrapped one run with the current depth plus one.
\<close>

lemma depth_guard_general:
  assumes "depthGuarded zodRef"
  shows "(depth_ge (effDepth options) (effMax options) \<longrightarrow>
            workerMap fuel gm L zodRef options w = Some (Inr (depthDefault zodRef), w))
       \<and> (\<not> depth_ge (effDepth options) (effMax options) \<longrightarrow>
            workerMap fuel gm L zodRef options w =
              wrapped fuel gm L zodRef
                (options\<lparr>maxDepth := Some (effMax options),
                         currentDepth := Some (depth_succ (effDepth options))\<rparr>) w)"
  using assms
  by (cases zodRef)
     (simp_all add: workerMap_def depthControlled_def parseArray_def wrapped_def effDepth_def
        effMax_def ret_def Let_def)

text \<open>
  A ceiling that is present with the value \<^verbatim>\<open>undefined\<close> replaces the default 10, and no
  depth is greater than or equal to it: with \<^verbatim>\<open>{ maxDepth: undefined, currentDepth: 50 }\<close> an
  array of exactly one \<^verbatim>\<open>null\<close> is generated in full.
\<close>

lemma depth_guard_undefined_ceiling:
  "map_option fst (generateMock (Suc (Suc 0)) stub_lib (ZodArray ZodNull None None (Some 1))
       (emptyOptions\<lparr>maxDepth := Some DepthUndefined, currentDepth := Some (Depth 50)\<rparr>) world0)
     = Some (Inr (VArr [VNull]))"
  by (simp add: generateMock_Suc run_defs parseArray_def parseArray_body_def depthControlled_def
      stub_lib_def stub_int_def Let_def)

text \<open>
  Claim C2 fails on the code for record nodes. The registry wraps \<^verbatim>\<open>parseRecord\<close> in the
  depth guard, but the guard has no case for a record: at the ceiling a record node falls
  through to the last \<^verbatim>\<open>return undefined\<close>, where an object node gets \<^verbatim>\<open>{}\<close> and a map node an
  empty \<^verbatim>\<open>Map\<close>. Here the record is generated at depth 10 with the default ceiling 10.
\<close>

theorem depth_guard_record_absent:
  "depthGuarded (ZodRecord (ZodString []) (ZodNumber []))
   \<and> map_option fst (generateMock (Suc 0) stub_lib (ZodRecord (ZodString []) (ZodNumber []))
                       (emptyOptions\<lparr>currentDepth := Some (Depth 10)\<rparr>) world0)
       = Some (Inr VUndefined)
   \<and> map_option fst (generateMock (Suc 0) stub_lib (ZodObject [(''a'', ZodNumber [])])
                       (emptyOptions\<lparr>currentDepth := Some (Depth 10)\<rparr>) world0)
       = Some (Inr (VObj []))"
  by (simp add: generateMock_Suc dispatch_def try_catch_def backupMock_def emptyOptions_def
      withDefaults_def workerMap_keys_def workerMap_def depthControlled_def ret_def Let_def)

section \<open>The library instance keeps the contracts\<close>

lemma stub_int_ok: "lo \<le> hi \<Longrightarrow> \<exists>n r'. stub_int (Some lo) (Some hi) r = (Inr n, r') \<and> lo \<le> n \<and> n \<le> hi"
proof -
  assume le: "lo \<le> hi"
  have p: "0 < hi - lo + 1" using le by simp
  have "0 \<le> int r mod (hi - lo + 1)"
    using p by (rule pos_mod_sign)
  moreover have "int r mod (hi - lo + 1) < hi - lo + 1"
    using p by (rule pos_mod_bound)
  ultimately have "lo \<le> lo + int r mod (hi - lo + 1)" "lo + int r mod (hi - lo + 1) \<le> hi"
    by linarith+
  moreover have "stub_int (Some lo) (Some hi) r = (Inr (lo + int r mod (hi - lo + 1)), Suc r)"
    using le by (simp add: stub_int_def Let_def)
  ultimately show ?thesis by blast
qed

lemma replicate_3: "replicate 3 c = [c, c, c]"
  by (simp add: numeral_3_eq_3)

lemma replicate_2: "replicate 2 c = [c, c]"
  by (simp add: numeral_2_eq_2)

lemma stub_lib_sel:
  "new_faker stub_lib = (\<lambda>k. 1000 * k)"
  "faker_seed stub_lib =
     (\<lambda>s r. case s of SeedNum n \<Rightarrow> nat (abs n) | SeedArr ns \<Rightarrow> nat (abs (sum_list ns)))"
  "number_int stub_lib = stub_int"
  "datatype_boolean stub_lib = (\<lambda>r. (even r, Suc r))"
  "lorem_word stub_lib =
     (\<lambda>len r. (Inr (VStr (case len of None \<Rightarrow> ''lorem''
                                 | Some n \<Rightarrow> replicate (nat n) CHR ''a'')), Suc r))"
  "string_alpha stub_lib = (\<lambda>n r. (replicate (nat n) CHR ''x'', Suc r))"
  "string_uuid stub_lib = stub_str ''uuid-''"
  "person_fullName stub_lib = stub_str ''Jane Doe ''"
  "date_between stub_lib = (\<lambda>lo hi. stub_int (Some lo) (Some hi))"
  "arrayElement stub_lib =
     (\<lambda>n r. if n = 0 then (Inl (RuntimeFault ''FakerError: empty array''), r)
            else (Inr (r mod n), Suc r))"
  "date_toString stub_lib = (\<lambda>t. ''Date '' @ string_of_int t)"
  by (simp_all add: stub_lib_def)

lemma stub_date_between_ok: "date_between_ok stub_lib"
  unfolding date_between_ok_def using stub_int_ok by (simp add: stub_lib_def)

lemma stub_number_int_ok: "number_int_ok stub_lib"
  unfolding number_int_ok_def using stub_int_ok by (simp add: stub_lib_def)

lemma stub_string_alpha_ok: "string_alpha_ok stub_lib"
  unfolding string_alpha_ok_def by (simp add: stub_lib_def)

section \<open>Dates\<close>

text \<open>
  Claim C4. For a date node whose checks set both bounds, \<open>A\<close> the minimum and \<open>B\<close> the
  maximum (the last valid \<^verbatim>\<open>min\<close> and \<^verbatim>\<open>max\<close> checks), and a library whose
  \<^verbatim>\<open>date.between\<close> stays within its bounds: when \<open>A \<le> B\<close>, \<^verbatim>\<open>generateMock\<close> returns a date
  in \<open>[A, B]\<close>; when \<open>A > B\<close>, it returns \<^verbatim>\<open>undefined\<close>.
\<close>

theorem date_range:
  assumes ok: "date_between_ok L"
    and bounds: "dateBounds checks (None, None, []) = (Some A, Some B, warns)"
  shows "(A \<le> B \<longrightarrow>
           (\<exists>t w'. generateMock (Suc fuel) L (ZodDate checks) options w = Some (Inr (VDate t), w')
                    \<and> A \<le> t \<and> t \<le> B))
       \<and> (B < A \<longrightarrow>
           (\<exists>w'. generateMock (Suc fuel) L (ZodDate checks) options w = Some (Inr VUndefined, w')))"
proof (intro conjI impI)
  assume le: "A \<le> B"
  define o' where "o' = withDefaults (Suc (allocated w)) options"
  define w1 where "w1 = seed_instance L o' (snd (new_Faker L w))"
  define w2 where "w2 = w1\<lparr>console := console w1 @ warns\<rparr>"
  obtain t r' where db: "date_between L A B (fakers w2 (fakerInstance o')) = (Inr t, r')"
    and rng: "A \<le> t" "t \<le> B"
    using ok le unfolding date_between_ok_def by blast
  have "parseDate L checks o' w1 = Some (Inr (VDate t), w2\<lparr>fakers := (fakers w2)(fakerInstance o' := r')\<rparr>)"
    using bounds le db
    by (simp add: parseDate_def date_or_undefined_def on_faker_def w2_def Let_def)
  then have "generateMock (Suc fuel) L (ZodDate checks) options w
               = Some (Inr (VDate t), w2\<lparr>fakers := (fakers w2)(fakerInstance o' := r')\<rparr>)"
    by (simp add: generateMock_Suc dispatch_def workerMap_keys_def workerMap_def try_catch_def
        o'_def w1_def)
  with rng show "\<exists>t w'. generateMock (Suc fuel) L (ZodDate checks) options w = Some (Inr (VDate t), w')
                    \<and> A \<le> t \<and> t \<le> B" by blast
next
  assume gt: "B < A"
  define o' where "o' = withDefaults (Suc (allocated w)) options"
  define w1 where "w1 = seed_instance L o' (snd (new_Faker L w))"
  have "parseDate L checks o' w1 = Some (Inr VUndefined, w1\<lparr>console := console w1 @ warns\<rparr>)"
    using bounds gt by (simp add: parseDate_def ret_def Let_def)
  then show "\<exists>w'. generateMock (Suc fuel) L (ZodDate checks) options w = Some (Inr VUndefined, w')"
    by (simp add: generateMock_Suc dispatch_def workerMap_keys_def workerMap_def try_catch_def
        o'_def w1_def)
qed

theorem date_range_witness:
  "date_between_ok stub_lib
   \<and> dateBounds [DateMin (VDate 1640995200000), DateMax (VDate 1672531200000)] (None, None, [])
       = (Some 1640995200000, Some 1672531200000, [])
   \<and> (\<exists>t w'. generateMock (Suc 0) stub_lib
                (ZodDate [DateMin (VDate 1640995200000), DateMax (VDate 1672531200000)]) emptyOptions world0
              = Some (Inr (VDate t), w') \<and> 1640995200000 \<le> t \<and> t \<le> 1672531200000)
   \<and> dateBounds [DateMin (VDate 1672531200000), DateMax (VDate 1640995200000)] (None, None, [])
       = (Some 1672531200000, Some 1640995200000, [])
   \<and> (\<exists>w'. generateMock (Suc 0) stub_lib
                (ZodDate [DateMin (VDate 1672531200000), DateMax (VDate 1640995200000)]) emptyOptions world0
              = Some (Inr VUndefined, w'))"
proof -
  have b1: "dateBounds [DateMin (VDate 1640995200000), DateMax (VDate 1672531200000)] (None, None, [])
       = (Some 1640995200000, Some 1672531200000, [])" by simp
  have b2: "dateBounds [DateMin (VDate 1672531200000), DateMax (VDate 1640995200000)] (None, None, [])
       = (Some 1672531200000, Some 1640995200000, [])" by simp
  show ?thesis
    using stub_date_between_ok b1 b2
      date_range [OF stub_date_between_ok b1, of 0 emptyOptions world0]
      date_range [OF stub_date_between_ok b2, of 0 emptyOptions world0]
    by simp
qed


section \<open>String lengths\<close>

lemma slice0_len_le: "0 \<le> mx \<Longrightarrow> int (length (slice0 s (Some mx))) \<le> mx"
  by (simp add: slice0_def)

lemma slice0_len_ge:
  "0 \<le> mx \<Longrightarrow> mn \<le> mx \<Longrightarrow> mn \<le> int (length s) \<Longrightarrow> mn \<le> int (length (slice0 s (Some mx)))"
  by (simp add: slice0_def)

lemma finishString_returns:
  "\<exists>r w'. finishString L a g target so w = Some (r, w')"
  by (auto simp: finishString_def and_then_def on_faker_def throw_def ret_def total_def Let_def
      split: prod.splits sum.splits option.splits)

lemma finishString_upper:
  assumes "finishString L a g target (mn, Some mx) w = Some (Inr v, w')" and "0 \<le> mx"
  shows "\<exists>s. v = VStr s \<and> int (length s) \<le> mx"
  using assms
  by (auto simp: finishString_def and_then_def on_faker_def throw_def ret_def total_def Let_def
      slice0_def split: prod.splits sum.splits option.splits if_splits)

lemma finishString_lower:
  assumes alpha: "string_alpha_ok L"
    and run: "finishString L a g target (Some mn, Some mx) w = Some (Inr v, w')"
    and "mn \<le> target" "target \<le> mx" "0 \<le> mx"
  shows "\<exists>s. v = VStr s \<and> mn \<le> int (length s)"
proof -
  obtain res r1 where g: "g (fakers w a) = (res, r1)" by (cases "g (fakers w a)")
  define w1 where "w1 = w\<lparr>fakers := (fakers w)(a := r1)\<rparr>"
  from run g obtain gv where res: "res = Inr gv"
    by (cases res) (auto simp: finishString_def and_then_def on_faker_def)
  from run g res obtain s0 where ts: "toString_call (date_toString L) gv = Inr s0"
    by (cases "toString_call (date_toString L) gv")
       (auto simp: finishString_def and_then_def on_faker_def throw_def)
  show ?thesis
  proof (cases "int (length s0) < mn")
    case True
    obtain pad r2 where p: "string_alpha L (target - int (length s0)) (fakers w1 a) = (pad, r2)"
      by (cases "string_alpha L (target - int (length s0)) (fakers w1 a)")
    have lp: "length pad = nat (target - int (length s0))"
      using alpha p unfolding string_alpha_ok_def by (metis fst_conv)
    have v: "v = VStr (slice0 (s0 @ pad) (Some mx))"
      using run g res ts True p
      by (simp add: finishString_def and_then_def on_faker_def ret_def total_def Let_def w1_def)
    have "mn \<le> int (length (s0 @ pad))" using lp True assms(3) by simp
    then show ?thesis using v slice0_len_ge assms(3,4,5) by (metis order_trans)
  next
    case False
    have v: "v = VStr (slice0 s0 (Some mx))"
      using run g res ts False
      by (simp add: finishString_def and_then_def on_faker_def ret_def Let_def)
    have "mn \<le> int (length s0)" using False by simp
    then show ?thesis using v slice0_len_ge assms(3,4,5) by (metis order_trans)
  qed
qed


lemma findMatchingFaker_returns:
  "\<exists>x w2. findMatchingFaker L k f m w = Some (Inr x, w2)"
  by (auto simp: findMatchingFaker_def ret_def on_faker_def total_def Let_def
      split: option.splits prod.splits)

lemma parseString_finish:
  assumes "regexCheck checks = None" and "stringMap_entry options = None"
    and "parseString L checks options w = Some (Inr v, w')"
  shows "\<exists>target r1 G w2.
           number_int L (fst (sortedStringOptions (stringOptions checks)))
             (snd (sortedStringOptions (stringOptions checks))) (fakers w (fakerInstance options))
             = (Inr target, r1)
           \<and> finishString L (fakerInstance options) G target (stringOptions checks) w2 = Some (Inr v, w')"
proof -
  let ?a = "fakerInstance options"
  let ?srt = "sortedStringOptions (stringOptions checks)"
  obtain res r1 where ni: "number_int L (fst ?srt) (snd ?srt) (fakers w ?a) = (res, r1)"
    by (cases "number_int L (fst ?srt) (snd ?srt) (fakers w ?a)")
  from assms ni obtain target where res: "res = Inr target"
    by (cases res) (auto simp: parseString_def and_then_def on_faker_def Let_def)
  define w1 where "w1 = w\<lparr>fakers := (fakers w)(?a := r1)\<rparr>"
  let ?gens = "stringGenerators L target (now w1)"
  show ?thesis
  proof (cases "stringType ?gens (map_option toLowerCase (keyName options)) checks")
    case (Some kg)
    then obtain genKey g where kg: "kg = (genKey, g)" by (cases kg)
    have "finishString L ?a g target (stringOptions checks) w1 = Some (Inr v, w')"
      using assms ni res Some kg
      by (simp add: parseString_def and_then_def on_faker_def Let_def w1_def)
    then show ?thesis using ni res by blast
  next
    case None
    let ?find = "(case keyName options of
                    Some k \<Rightarrow> if k \<noteq> [] then findMatchingFaker L k (faker options) (mockeryMapper options)
                              else ret None
                  | None \<Rightarrow> ret None)"
    have "\<exists>x w2. ?find w1 = Some (Inr x, w2)"
      using findMatchingFaker_returns by (auto simp: ret_def split: option.splits)
    then obtain x w2 where f: "?find w1 = Some (Inr x, w2)" by blast
    have "finishString L ?a (case x of Some g \<Rightarrow> g | None \<Rightarrow> defaultGenerator L target) target
            (stringOptions checks) w2 = Some (Inr v, w')"
      using assms ni res None f
      by (simp add: parseString_def and_then_def on_faker_def Let_def w1_def)
    then show ?thesis using ni res by blast
  qed
qed

lemma parseString_returns: "\<exists>r w'. parseString L checks options w = Some (r, w')"
proof (cases "regexCheck checks")
  case (Some re)
  then show ?thesis
    by (auto simp: parseString_def and_then_def on_faker_def ret_def Let_def
        split: prod.splits sum.splits)
next
  case None
  note nore = None
  show ?thesis
  proof (cases "stringMap_entry options")
    case (Some generated)
    then show ?thesis using nore by (simp add: parseString_def Let_def)
  next
    case None
    let ?a = "fakerInstance options"
    let ?srt = "sortedStringOptions (stringOptions checks)"
    obtain res r1 where ni: "number_int L (fst ?srt) (snd ?srt) (fakers w ?a) = (res, r1)"
      by (cases "number_int L (fst ?srt) (snd ?srt) (fakers w ?a)")
    show ?thesis
    proof (cases res)
      case (Inl e)
      then show ?thesis using nore None ni
        by (simp add: parseString_def and_then_def on_faker_def Let_def)
    next
      case (Inr target)
      define w1 where "w1 = w\<lparr>fakers := (fakers w)(?a := r1)\<rparr>"
      let ?gens = "stringGenerators L target (now w1)"
      show ?thesis
      proof (cases "stringType ?gens (map_option toLowerCase (keyName options)) checks")
        case (Some kg)
        then obtain genKey g where kg: "kg = (genKey, g)" by (cases kg)
        have "parseString L checks options w = finishString L ?a g target (stringOptions checks) w1"
          using nore None ni Inr Some kg
          by (simp add: parseString_def and_then_def on_faker_def Let_def w1_def)
        then show ?thesis using finishString_returns by metis
      next
        case none: None
        let ?find = "(case keyName options of
                    Some k \<Rightarrow> if k \<noteq> [] then findMatchingFaker L k (faker options) (mockeryMapper options)
                              else ret None
                  | None \<Rightarrow> ret None)"
        have "\<exists>x w2. ?find w1 = Some (Inr x, w2)"
          using findMatchingFaker_returns by (auto simp: ret_def split: option.splits)
        then obtain x w2 where f: "?find w1 = Some (Inr x, w2)" by blast
        have "parseString L checks options w =
                finishString L ?a (case x of Some g \<Rightarrow> g | None \<Rightarrow> defaultGenerator L target) target
                  (stringOptions checks) w2"
          using nore None ni Inr none f
          by (simp add: parseString_def and_then_def on_faker_def Let_def w1_def)
        then show ?thesis using finishString_returns by metis
      qed
    qed
  qed
qed

text \<open>
  Claim C3 as stated fails: a \<^verbatim>\<open>stringMap\<close> entry for the field's name is returned as it
  is, before any length is looked at. (So is the output of the regex generator when the
  node has a regex check.) Here the bounds are 1 and 5 and the value has 9 characters.
\<close>

theorem string_length_counterexample:
  "map_option fst (generateMock (Suc (Suc 0)) stub_lib
       (ZodObject [(''locked'', ZodString [MinCheck 1, MaxCheck 5])])
       (emptyOptions\<lparr>stringMap := Some lockedMap\<rparr>) world0)
     = Some (Inr (VObj [(''locked'', VStr ''value set'')]))
   \<and> \<not> int (length ''value set'') \<le> 5"
  by (simp add: generateMock_Suc run_defs depthControlled_def parseObject_def parseString_def
      regexCheck_def stringMap_entry_def lockedMap_def Let_def)


text \<open>
  Claim C3, amended. For a string node without a regex check, generated for a key that
  has no \<^verbatim>\<open>stringMap\<close> entry, with declared minimum \<open>a\<close> and maximum \<open>b\<close> (the last \<^verbatim>\<open>min\<close>,
  \<^verbatim>\<open>max\<close> or \<^verbatim>\<open>length\<close> checks), and a library that keeps the contracts of \<^verbatim>\<open>number.int\<close>
  and \<^verbatim>\<open>string.alpha\<close>: \<^verbatim>\<open>parseString\<close> always comes back, and when it returns a value that
  value is a string \<open>s\<close> with \<open>a \<le> length s \<le> b\<close> if \<open>a \<le> b\<close> (and \<open>0 \<le> b\<close>), and with
  \<open>length s \<le> b\<close> if \<open>a > b > 0\<close>.
\<close>

theorem string_length_bounds:
  assumes "number_int_ok L" and "string_alpha_ok L"
    and "regexCheck checks = None" and "stringMap_entry options = None"
    and "stringOptions checks = (Some a, Some b)"
  shows "\<exists>r w'. parseString L checks options w = Some (r, w')
           \<and> (\<forall>v. r = Inr v \<longrightarrow>
                 (\<exists>s. v = VStr s
                    \<and> (a \<le> b \<and> 0 \<le> b \<longrightarrow> a \<le> int (length s) \<and> int (length s) \<le> b)
                    \<and> (b < a \<and> 0 < b \<longrightarrow> int (length s) \<le> b)))"
proof -
  obtain r w' where run: "parseString L checks options w = Some (r, w')"
    using parseString_returns by blast
  have "\<exists>s. v = VStr s
           \<and> (a \<le> b \<and> 0 \<le> b \<longrightarrow> a \<le> int (length s) \<and> int (length s) \<le> b)
           \<and> (b < a \<and> 0 < b \<longrightarrow> int (length s) \<le> b)" if rv: "r = Inr v" for v
  proof -
    from parseString_finish [OF assms(3,4)] run rv assms(5)
    obtain target r1 G w2 where
      ni: "number_int L (fst (sortedStringOptions (Some a, Some b)))
             (snd (sortedStringOptions (Some a, Some b))) (fakers w (fakerInstance options))
             = (Inr target, r1)"
      and fin: "finishString L (fakerInstance options) G target (Some a, Some b) w2 = Some (Inr v, w')"
      by (metis (no_types, lifting))
    show ?thesis
    proof (cases "a \<le> b")
      case True
      then have srt: "sortedStringOptions (Some a, Some b) = (Some a, Some b)"
        by (simp add: sortedStringOptions_def)
      obtain n r' where "number_int L (Some a) (Some b) (fakers w (fakerInstance options)) = (Inr n, r')"
        and "a \<le> n" "n \<le> b"
        using assms(1) True unfolding number_int_ok_def by blast
      with ni srt have tr: "a \<le> target" "target \<le> b" by simp_all
      show ?thesis
      proof (cases "0 \<le> b")
        case b0: True
        from finishString_upper [OF fin b0] obtain s where s: "v = VStr s" "int (length s) \<le> b"
          by blast
        from finishString_lower [OF assms(2) fin tr b0] s have "a \<le> int (length s)" by auto
        with s True show ?thesis by auto
      next
        case False
        from fin obtain s where "v = VStr s"
          by (auto simp: finishString_def and_then_def on_faker_def throw_def ret_def total_def Let_def
              split: prod.splits sum.splits option.splits if_splits)
        with True False show ?thesis by auto
      qed
    next
      case False
      show ?thesis
      proof (cases "0 < b")
        case True
        then have b0: "0 \<le> b" by simp
        from finishString_upper [OF fin b0] False show ?thesis by auto
      next
        case nb: False
        from fin obtain s where "v = VStr s"
          by (auto simp: finishString_def and_then_def on_faker_def throw_def ret_def total_def Let_def
              split: prod.splits sum.splits option.splits if_splits)
        with False nb show ?thesis by auto
      qed
    qed
  qed
  with run show ?thesis by blast
qed

theorem string_length_bounds_witness:
  "number_int_ok stub_lib \<and> string_alpha_ok stub_lib
   \<and> regexCheck [MinCheck 1, MaxCheck 5] = None
   \<and> stringMap_entry (emptyOptions :: nat options) = None
   \<and> stringOptions [MinCheck 1, MaxCheck 5] = (Some 1, Some 5)
   \<and> (\<exists>r w'. parseString stub_lib [MinCheck 1, MaxCheck 5] emptyOptions world0 = Some (r, w')
         \<and> (\<forall>v. r = Inr v \<longrightarrow> (\<exists>s. v = VStr s \<and> 1 \<le> int (length s) \<and> int (length s) \<le> 5)))
   \<and> map_option fst (parseString stub_lib [MinCheck 1, MaxCheck 5] emptyOptions world0)
       = Some (Inr (VStr ''aaa''))"
proof -
  have h: "regexCheck [MinCheck 1, MaxCheck 5] = None"
          "stringMap_entry (emptyOptions :: nat options) = None"
          "stringOptions [MinCheck 1, MaxCheck 5] = (Some 1, Some 5)"
    by (simp_all add: regexCheck_def stringMap_entry_def stringOptions_def emptyOptions_def)
  have e: "map_option fst (parseString stub_lib [MinCheck 1, MaxCheck 5] emptyOptions world0)
             = Some (Inr (VStr ''aaa''))"
    by (simp add: parseString_def regexCheck_def stringMap_entry_def stringOptions_def
        sortedStringOptions_def stringType_def stringGenerators_def
        finishString_def defaultGenerator_def toString_call_def slice0_def stub_lib_sel stub_int_def
        toLowerCase_def toUpperCase_def toUpperChar_def run_defs Let_def replicate_3)
  show ?thesis
    using stub_number_int_ok stub_string_alpha_ok h e
      string_length_bounds [OF stub_number_int_ok stub_string_alpha_ok h, of world0]
    by simp
qed

section \<open>Records and maps\<close>

lemma and_then_Inr:
  "and_then m f w = Some (Inr y, w'') \<Longrightarrow> \<exists>x w'. m w = Some (Inr x, w') \<and> f x w' = Some (Inr y, w'')"
  by (auto simp: and_then_def split: option.splits prod.splits sum.splits)

lemma and_then_step:
  "m w = Some (Inr x, w') \<Longrightarrow> and_then m f w = f x w'"
  by (simp add: and_then_def)

lemma obj_set_keys: "set (map fst (obj_set es k v)) = insert k (set (map fst es))"
  by (induction es) force+

lemma obj_set_distinct: "distinct (map fst es) \<Longrightarrow> distinct (map fst (obj_set es k v))"
proof (induction es)
  case Nil
  then show ?case by simp
next
  case (Cons e es)
  obtain k' v' where e: "e = (k', v')" by (cases e)
  show ?case
  proof (cases "k' = k")
    case True
    then show ?thesis using Cons.prems e by simp
  next
    case False
    have "k' \<notin> set (map fst (obj_set es k v))"
      using Cons.prems e False by (simp add: obj_set_keys del: set_map)
    then show ?thesis using Cons e False by simp
  qed
qed

lemma record_rounds_keys:
  assumes "record_rounds gm d ks vs options k prev w = Some (Inr v, w')"
    and "distinct (map fst prev)"
  shows "\<exists>es keys. v = VObj es \<and> record_keys gm d ks vs options k w = Some (Inr keys, w')
           \<and> length keys = k \<and> distinct (map fst es)
           \<and> set (map fst es) = set (map fst prev) \<union> set keys"
  using assms
proof (induction k arbitrary: prev w)
  case 0
  then show ?case by (auto simp: ret_def)
next
  case (Suc k)
  from Suc.prems(1)
  have "and_then (gm ks options) (\<lambda>key. and_then (gm vs options) (\<lambda>v.
          record_rounds gm d ks vs options k (obj_set prev (toStr d key) v))) w = Some (Inr v, w')"
    by simp
  from and_then_Inr [OF this]
  obtain key w1 where k1: "gm ks options w = Some (Inr key, w1)"
    and r1: "and_then (gm vs options) (\<lambda>v. record_rounds gm d ks vs options k
               (obj_set prev (toStr d key) v)) w1 = Some (Inr v, w')"
    by blast
  from and_then_Inr [OF r1]
  obtain x w2 where k2: "gm vs options w1 = Some (Inr x, w2)"
    and r2: "record_rounds gm d ks vs options k (obj_set prev (toStr d key) x) w2 = Some (Inr v, w')"
    by blast
  from Suc.IH [OF r2 obj_set_distinct [OF Suc.prems(2)]]
  obtain es keys where es: "v = VObj es"
    and rk: "record_keys gm d ks vs options k w2 = Some (Inr keys, w')"
    and len: "length keys = k" and dist: "distinct (map fst es)"
    and eq: "set (map fst es) = set (map fst (obj_set prev (toStr d key) x)) \<union> set keys"
    by blast
  have "record_keys gm d ks vs options (Suc k) w = Some (Inr (toStr d key # keys), w')"
    using k1 k2 rk by (simp add: and_then_def ret_def)
  moreover have "set (map fst es) = set (map fst prev) \<union> set (toStr d key # keys)"
    using eq by (simp add: obj_set_keys del: set_map)
  ultimately show ?case using es len dist by auto
qed

lemma map_set_length: "length (map_set es k v) \<le> Suc (length es)"
  by (induction es) auto

lemma map_set_length_ge: "length es \<le> length (map_set es k v)"
  by (induction es) auto

lemma map_loop_size:
  assumes "map_loop fuel gm kt vt options target results w = Some (Inr v, w')"
  shows "\<exists>es. v = VMap es \<and> int (length es) = max target (int (length results))"
  using assms
proof (induction fuel arbitrary: results w)
  case 0
  then show ?case by (auto simp: ret_def split: if_splits)
next
  case (Suc fuel)
  show ?case
  proof (cases "int (length results) < target")
    case False
    then show ?thesis using Suc.prems by (auto simp: ret_def)
  next
    case True
    with Suc.prems
    have "and_then (gm kt options) (\<lambda>key. and_then (gm vt options) (\<lambda>v.
            map_loop fuel gm kt vt options target (map_set results key v))) w = Some (Inr v, w')"
      by simp
    from and_then_Inr [OF this]
    obtain key w1 where "gm kt options w = Some (Inr key, w1)"
      and r1: "and_then (gm vt options) (\<lambda>v. map_loop fuel gm kt vt options target
                 (map_set results key v)) w1 = Some (Inr v, w')"
      by blast
    from and_then_Inr [OF r1]
    obtain x w2 where
      r2: "map_loop fuel gm kt vt options target (map_set results key x) w2 = Some (Inr v, w')"
      by blast
    from Suc.IH [OF r2] obtain es where es: "v = VMap es"
      and len: "int (length es) = max target (int (length (map_set results key x)))" by blast
    have "int (length (map_set results key x)) \<le> target"
      using True map_set_length [of results key x] by linarith
    then show ?thesis using es len True by auto
  qed
qed


lemma record_rounds_numeral:
  "record_rounds gm d keySchema valueSchema options (numeral k) prev
     = record_rounds gm d keySchema valueSchema options (Suc (pred_numeral k)) prev"
  by (simp add: numeral_eq_Suc)


text \<open>
  What holds of every run that returns. A map returned by \<^verbatim>\<open>parseMap\<close> below the depth
  ceiling has exactly \<^verbatim>\<open>mapEntriesLength\<close> entries (1 when unset, none for a target below 1).
  A record returned by \<^verbatim>\<open>parseRecord\<close> has as many entries as there are distinct property
  keys among the keys its rounds generated.
\<close>

lemma entries_when_returned:
  "(\<forall>v w'. parseMap_body fuel gm (ZodMap kt vt) options w = Some (Inr v, w') \<longrightarrow>
       (\<exists>es. v = VMap es \<and> int (length es) = max 0 (mapTarget options)))
   \<and> (\<forall>v w'. parseRecord gm L (ZodRecord ks vs) options w = Some (Inr v, w') \<longrightarrow>
       (\<exists>es keys. v = VObj es
          \<and> record_keys gm (date_toString L) ks vs options (nat (recordTarget options)) w
              = Some (Inr keys, w')
          \<and> int (length keys) = recordTarget options
          \<and> length es = card (set keys)))"
proof (intro conjI allI impI)
  fix v w'
  assume "parseMap_body fuel gm (ZodMap kt vt) options w = Some (Inr v, w')"
  then have "map_loop fuel gm kt vt options (mapTarget options) [] w = Some (Inr v, w')"
    by (simp add: parseMap_body_def)
  from map_loop_size [OF this]
  show "\<exists>es. v = VMap es \<and> int (length es) = max 0 (mapTarget options)"
    by (auto simp: max_def)
next
  fix v w'
  assume run: "parseRecord gm L (ZodRecord ks vs) options w = Some (Inr v, w')"
  then have rng: "0 \<le> recordTarget options"
    by (auto simp: parseRecord_def throw_def split: if_splits)
  from run have "record_rounds gm (date_toString L) ks vs options (nat (recordTarget options)) [] w
                   = Some (Inr v, w')"
    by (auto simp: parseRecord_def throw_def split: if_splits)
  from record_rounds_keys [OF this]
  obtain es keys where es: "v = VObj es"
    and rk: "record_keys gm (date_toString L) ks vs options (nat (recordTarget options)) w
               = Some (Inr keys, w')"
    and len: "length keys = nat (recordTarget options)" and dist: "distinct (map fst es)"
    and eq: "set (map fst es) = set keys"
    by auto
  have "length es = card (set (map fst es))"
    using dist distinct_card [of "map fst es"] by simp
  then show "\<exists>es keys. v = VObj es
          \<and> record_keys gm (date_toString L) ks vs options (nat (recordTarget options)) w
              = Some (Inr keys, w')
          \<and> int (length keys) = recordTarget options
          \<and> length es = card (set keys)"
    using es rk len eq rng by auto
qed

text \<open>
  The \<^verbatim>\<open>while\<close> loop of \<^verbatim>\<open>parseMap\<close> ends only when the map has reached the target size. With
  a key schema that can only produce one key and a target of 2 it never does: whatever
  the fuel, the library and the world, the call does not return.
\<close>

lemma literal_key_fixed:
  "generateMock n L (ZodLiteral v) opts w = None
   \<or> (\<exists>w'. generateMock n L (ZodLiteral v) opts w = Some (Inr v, w'))"
proof (cases n)
  case 0
  then show ?thesis by simp
next
  case (Suc k)
  show ?thesis
    unfolding Suc
    by (simp add: generateMock_Suc dispatch_def try_catch_def workerMap_keys_def workerMap_def
        parseLiteral_def ret_def)
qed

lemma null_value_fixed:
  "generateMock n L ZodNull opts w = None
   \<or> (\<exists>w'. generateMock n L ZodNull opts w = Some (Inr VNull, w'))"
proof (cases n)
  case 0
  then show ?thesis by simp
next
  case (Suc k)
  show ?thesis
    unfolding Suc
    by (simp add: generateMock_Suc dispatch_def try_catch_def workerMap_keys_def workerMap_def
        ret_def)
qed

lemma map_loop_stuck:
  assumes "results = [] \<or> (\<exists>x. results = [(VStr ''k'', x)])"
  shows "map_loop fuel (generateMock n L) (ZodLiteral (VStr ''k'')) ZodNull options 2 results w = None"
  using assms
proof (induction fuel arbitrary: results w)
  case 0
  then show ?case by auto
next
  case (Suc fuel)
  have small: "int (length results) < 2" using Suc.prems by auto
  show ?case
  proof (cases "generateMock n L (ZodLiteral (VStr ''k'')) options w")
    case None
    then show ?thesis using small by (simp add: and_then_def)
  next
    case (Some a)
    with literal_key_fixed [of n L "VStr ''k''" options w]
    obtain w1 where k: "generateMock n L (ZodLiteral (VStr ''k'')) options w = Some (Inr (VStr ''k''), w1)"
      by auto
    show ?thesis
    proof (cases "generateMock n L ZodNull options w1")
      case None
      then show ?thesis using small k by (simp add: and_then_def)
    next
      case (Some b)
      with null_value_fixed [of n L options w1]
      obtain w2 where v: "generateMock n L ZodNull options w1 = Some (Inr VNull, w2)"
        by auto
      have next_results: "map_set results (VStr ''k'') VNull = [] \<or>
                 (\<exists>x. map_set results (VStr ''k'') VNull = [(VStr ''k'', x)])"
        using Suc.prems by (auto simp: sameValueZero_def)
      from Suc.IH [OF next_results]
      show ?thesis using small k v by (simp add: and_then_def)
    qed
  qed
qed

lemma colliding_map_never_returns:
  "generateMock fuel L (ZodMap (ZodLiteral (VStr ''k'')) ZodNull)
     (emptyOptions\<lparr>mapEntriesLength := Some 2\<rparr>) w = None"
proof (cases fuel)
  case 0
  then show ?thesis by simp
next
  case (Suc n)
  show ?thesis
    unfolding Suc
    by (simp add: generateMock_Suc dispatch_def try_catch_def backupMock_def emptyOptions_def
        withDefaults_def workerMap_keys_def workerMap_def depthControlled_def parseMap_body_def
        mapTarget_def map_loop_stuck Let_def)
qed

text \<open>
  Claim C7 fails on the code. \<^verbatim>\<open>parseRecord\<close> counts rounds, not entries: with the literal
  \<^verbatim>\<open>'a'\<close> as key schema and \<^verbatim>\<open>recordKeysLength: 2\<close> both rounds write the same property, and
  the record has one entry where two are configured. \<^verbatim>\<open>parseMap\<close> does count entries, and
  with the same kind of key schema and \<^verbatim>\<open>mapEntriesLength: 2\<close> it never returns.
\<close>

theorem record_entries_short_of_target:
  "map_option fst (generateMock (Suc (Suc 0)) stub_lib (ZodRecord (ZodLiteral (VStr ''a'')) ZodNull)
       (emptyOptions\<lparr>recordKeysLength := Some 2\<rparr>) world0)
     = Some (Inr (VObj [(''a'', VNull)]))
   \<and> length [(''a'', VNull)] = 1
   \<and> generateMock fuel L (ZodMap (ZodLiteral (VStr ''k'')) ZodNull)
         (emptyOptions\<lparr>mapEntriesLength := Some 2\<rparr>) w = None"
proof -
  have "map_option fst (generateMock (Suc (Suc 0)) stub_lib (ZodRecord (ZodLiteral (VStr ''a'')) ZodNull)
       (emptyOptions\<lparr>recordKeysLength := Some 2\<rparr>) world0)
     = Some (Inr (VObj [(''a'', VNull)]))"
    by (simp add: generateMock_Suc run_defs depthControlled_def parseRecord_def recordTarget_def
        parseLiteral_def record_rounds_numeral stub_lib_sel)
  then show ?thesis
    by (simp add: colliding_map_never_returns)
qed

section \<open>Tuples\<close>















section \<open>Overrides by type tag\<close>

text \<open>
  An entry point that ignores the \<^verbatim>\<open>backupMocks\<close> entry of \<open>t\<close> makes every synthesizer
  ignore it, and so does the entry point built on them, by induction on the fuel.
\<close>

lemma ignoresD: "ignores t gm \<Longrightarrow> same_but t o1 o2 \<Longrightarrow> gm zodRef o1 = gm zodRef o2"
  unfolding ignores_def by (elim allE impE) assumption+

lemma same_but_fields:
  assumes "same_but t o1 o2"
  shows "keyName o1 = keyName o2" "stringMap o1 = stringMap o2" "mockeryMapper o1 = mockeryMapper o2"
    "recordKeysLength o1 = recordKeysLength o2" "mapEntriesLength o1 = mapEntriesLength o2"
    "throwOnUnknownType o1 = throwOnUnknownType o2" "seed o1 = seed o2" "faker o1 = faker o2"
    "currentDepth o1 = currentDepth o2" "maxDepth o1 = maxDepth o2"
  using assms by (simp_all add: same_but_def)

lemma same_but_backup: "same_but t o1 o2 \<Longrightarrow> k \<noteq> t \<Longrightarrow> backupMock o1 k = backupMock o2 k"
  by (simp add: same_but_def)

lemma same_but_keyName:
  "same_but t o1 o2 \<Longrightarrow>
   same_but t (o1\<lparr>keyName := k, backupMocks := backupMocks o1\<rparr>)
              (o2\<lparr>keyName := k, backupMocks := backupMocks o2\<rparr>)"
  by (simp add: same_but_def backupMock_def)

lemma same_but_self_backup:
  "same_but t o1 o2 \<Longrightarrow>
   same_but t (o1\<lparr>backupMocks := backupMocks o1\<rparr>) (o2\<lparr>backupMocks := backupMocks o2\<rparr>)"
  by (simp add: same_but_def backupMock_def)

lemma same_but_depth:
  "same_but t o1 o2 \<Longrightarrow>
   same_but t (o1\<lparr>maxDepth := m, currentDepth := d\<rparr>) (o2\<lparr>maxDepth := m, currentDepth := d\<rparr>)"
  by (simp add: same_but_def backupMock_def)

lemma same_but_withDefaults:
  "same_but t o1 o2 \<Longrightarrow> same_but t (withDefaults a o1) (withDefaults a o2)"
  by (simp add: same_but_def backupMock_def withDefaults_def)

lemma same_but_entry:
  "same_but t o1 o2 \<Longrightarrow>
   same_but t (o1\<lparr>backupMocks := backupMocks o1, maxDepth := maxDepth o1\<rparr>)
              (o2\<lparr>backupMocks := backupMocks o2, maxDepth := maxDepth o2\<rparr>)"
  by (simp add: same_but_def backupMock_def)

lemma fakerInstance_same: "same_but t o1 o2 \<Longrightarrow> fakerInstance o1 = fakerInstance o2"
  by (simp add: same_but_def fakerInstance_def)

lemma parseObject_fields_same:
  assumes "ignores t gm" and "same_but t o1 o2"
  shows "parseObject_fields gm o1 fs carry = parseObject_fields gm o2 fs carry"
proof (induction fs arbitrary: carry)
  case Nil
  show ?case by simp
next
  case (Cons f fs)
  have "gm (snd f) (o1\<lparr>keyName := Some (fst f), backupMocks := backupMocks o1\<rparr>)
          = gm (snd f) (o2\<lparr>keyName := Some (fst f), backupMocks := backupMocks o2\<rparr>)"
    by (rule ignoresD [OF assms(1) same_but_keyName [OF assms(2)]])
  then show ?case using Cons.IH by simp
qed

lemma record_rounds_same:
  assumes "ignores t gm" and "same_but t o1 o2"
  shows "record_rounds gm d ks vs o1 k prev = record_rounds gm d ks vs o2 k prev"
proof (induction k arbitrary: prev)
  case 0
  show ?case by simp
next
  case (Suc k)
  have "gm ks o1 = gm ks o2" "gm vs o1 = gm vs o2"
    by (rule ignoresD [OF assms])+
  then show ?case using Suc.IH by simp
qed

lemma array_loop_same:
  assumes "ignores t gm" and "same_but t o1 o2" and "t \<noteq> ''ZodUndefined''"
  shows "array_loop gm el o1 k results = array_loop gm el o2 k results"
proof (induction k arbitrary: results)
  case 0
  show ?case by simp
next
  case (Suc k)
  have b: "backupMock o1 ''ZodUndefined'' = backupMock o2 ''ZodUndefined''"
    by (rule same_but_backup [OF assms(2) not_sym [OF assms(3)]])
  have g: "gm el (o1\<lparr>backupMocks := backupMocks o1\<rparr>) = gm el (o2\<lparr>backupMocks := backupMocks o2\<rparr>)"
    by (rule ignoresD [OF assms(1) same_but_self_backup [OF assms(2)]])
  show ?case using Suc.IH b g by (simp cong: if_cong option.case_cong)
qed

lemma set_loop_same:
  assumes "ignores t gm" and "same_but t o1 o2"
  shows "set_loop fuel gm vt o1 target results = set_loop fuel gm vt o2 target results"
proof (induction fuel arbitrary: results)
  case 0
  show ?case by simp
next
  case (Suc fuel)
  have "gm vt o1 = gm vt o2" by (rule ignoresD [OF assms])
  then show ?case using Suc.IH by simp
qed

lemma map_loop_same:
  assumes "ignores t gm" and "same_but t o1 o2"
  shows "map_loop fuel gm kt vt o1 target results = map_loop fuel gm kt vt o2 target results"
proof (induction fuel arbitrary: results)
  case 0
  show ?case by simp
next
  case (Suc fuel)
  have "gm kt o1 = gm kt o2" "gm vt o1 = gm vt o2"
    by (rule ignoresD [OF assms])+
  then show ?case using Suc.IH by simp
qed

lemma tuple_items_same:
  assumes "ignores t gm" and "same_but t o1 o2"
  shows "tuple_items gm o1 items results = tuple_items gm o2 items results"
proof (induction items arbitrary: results)
  case Nil
  show ?case by simp
next
  case (Cons d ds)
  have "gm d o1 = gm d o2" by (rule ignoresD [OF assms])
  then show ?case using Cons.IH by simp
qed

lemma depthControlled_same:
  assumes "\<And>p1 p2. same_but t p1 p2 \<Longrightarrow> pf zodRef p1 = pf zodRef p2"
    and sb: "same_but t o1 o2"
  shows "depthControlled pf zodRef o1 = depthControlled pf zodRef o2"
proof -
  have c: "currentDepth o1 = currentDepth o2" "maxDepth o1 = maxDepth o2"
    using sb by (simp_all add: same_but_def)
  have "pf zodRef (o1\<lparr>maxDepth := m, currentDepth := d\<rparr>) = pf zodRef (o2\<lparr>maxDepth := m, currentDepth := d\<rparr>)"
    for m d
    using assms(1) [OF same_but_depth [OF sb]] .
  then show ?thesis
    by (simp add: depthControlled_def c Let_def)
qed


lemma parseString_same:
  assumes "same_but t o1 o2"
  shows "parseString L checks o1 = parseString L checks o2"
  unfolding parseString_def stringMap_entry_def fakerInstance_def same_but_fields [OF assms]
  by (rule refl)

lemma workerMap_same:
  assumes gm: "ignores t gm" and sb: "same_but t o1 o2" and nu: "t \<noteq> ''ZodUndefined''"
  shows "workerMap fuel gm L zodRef o1 = workerMap fuel gm L zodRef o2"
proof -
  note fi = fakerInstance_same [OF sb]
  note g = ignoresD [OF gm sb]
  show ?thesis
  proof (cases zodRef)
    case (ZodObject shape)
    have "depthControlled (parseObject gm) zodRef o1 = depthControlled (parseObject gm) zodRef o2"
      by (rule depthControlled_same [OF _ sb])
         (simp add: parseObject_def ZodObject parseObject_fields_same [OF gm])
    then show ?thesis by (simp add: workerMap_def ZodObject cong: if_cong option.case_cong)
  next
    case (ZodRecord ks vs)
    have "depthControlled (parseRecord gm L) zodRef o1 = depthControlled (parseRecord gm L) zodRef o2"
      by (rule depthControlled_same [OF _ sb])
         (simp add: parseRecord_def ZodRecord recordTarget_def same_but_fields
            record_rounds_same [OF gm])
    then show ?thesis by (simp add: workerMap_def ZodRecord cong: if_cong option.case_cong)
  next
    case (ZodArray el mn mx ex)
    have "depthControlled (parseArray_body gm L) zodRef o1
            = depthControlled (parseArray_body gm L) zodRef o2"
      by (rule depthControlled_same [OF _ sb])
         (simp add: parseArray_body_def ZodArray fakerInstance_same array_loop_same [OF gm _ nu]
            Let_def)
    then show ?thesis by (simp add: workerMap_def parseArray_def ZodArray cong: if_cong option.case_cong)
  next
    case (ZodSet vt mn mx)
    have "depthControlled (parseSet_body fuel gm L) zodRef o1
            = depthControlled (parseSet_body fuel gm L) zodRef o2"
      by (rule depthControlled_same [OF _ sb])
         (simp add: parseSet_body_def ZodSet fakerInstance_same set_loop_same [OF gm] Let_def)
    then show ?thesis by (simp add: workerMap_def ZodSet cong: if_cong option.case_cong)
  next
    case (ZodMap kt vt)
    have "depthControlled (parseMap_body fuel gm) zodRef o1
            = depthControlled (parseMap_body fuel gm) zodRef o2"
      by (rule depthControlled_same [OF _ sb])
         (simp add: parseMap_body_def ZodMap mapTarget_def same_but_fields map_loop_same [OF gm])
    then show ?thesis by (simp add: workerMap_def ZodMap cong: if_cong option.case_cong)
  next
    case (ZodLazy getter)
    have "depthControlled (parseLazy gm) zodRef o1 = depthControlled (parseLazy gm) zodRef o2"
      by (rule depthControlled_same [OF _ sb])
         (simp add: parseLazy_def ZodLazy ignoresD [OF gm])
    then show ?thesis by (simp add: workerMap_def ZodLazy cong: if_cong option.case_cong)
  next
    case (ZodUnion cases)
    then show ?thesis by (simp add: workerMap_def parseUnion_def fi g cong: if_cong option.case_cong)
  next
    case (ZodIntersection l r)
    then show ?thesis by (simp add: workerMap_def parseZodIntersection_def g cong: if_cong option.case_cong)
  next
    case (ZodDiscriminatedUnion cases)
    then show ?thesis by (simp add: workerMap_def parseDiscriminatedUnion_def fi g cong: if_cong option.case_cong)
  next
    case (ZodOptional inner)
    then show ?thesis by (simp add: workerMap_def parseOptional_def g cong: if_cong option.case_cong)
  next
    case (ZodNullable inner)
    then show ?thesis by (simp add: workerMap_def parseOptional_def g cong: if_cong option.case_cong)
  next
    case (ZodTransformer inner eff)
    then show ?thesis by (simp add: workerMap_def parseTransform_def g cong: if_cong option.case_cong)
  next
    case (ZodEffects inner eff)
    then show ?thesis by (simp add: workerMap_def parseTransform_def g cong: if_cong option.case_cong)
  next
    case (ZodFunction returns)
    then show ?thesis by (simp add: workerMap_def parseZodFunction_def cong: if_cong option.case_cong)
  next
    case (ZodPromise inner)
    then show ?thesis by (simp add: workerMap_def parseZodPromise_def g cong: if_cong option.case_cong)
  next
    case (ZodTuple items rest)
    have a: "parseArray gm L z o1 = parseArray gm L z o2" for z
      unfolding parseArray_def
    proof (rule depthControlled_same [OF _ sb])
      fix p1 p2 :: "'a options"
      assume p: "same_but t p1 p2"
      show "parseArray_body gm L z p1 = parseArray_body gm L z p2"
        by (cases z)
           (simp_all add: parseArray_body_def fakerInstance_same [OF p]
              array_loop_same [OF gm p nu] Let_def)
    qed
    show ?thesis
      by (simp add: workerMap_def ZodTuple parseZodTuple_def tuple_items_same [OF gm sb] a
          cong: if_cong option.case_cong)
  next
    case (ZodString checks)
    then show ?thesis by (simp add: workerMap_def parseString_same [OF sb] cong: if_cong option.case_cong)
  next
    case (ZodNumber checks)
    then show ?thesis by (simp add: workerMap_def parseNumber_def fi cong: if_cong option.case_cong)
  next
    case (ZodBigInt checks)
    then show ?thesis by (simp add: workerMap_def parseNumber_def fi cong: if_cong option.case_cong)
  next
    case ZodBoolean
    then show ?thesis by (simp add: workerMap_def parseBoolean_def fi cong: if_cong option.case_cong)
  next
    case (ZodDate checks)
    then show ?thesis by (simp add: workerMap_def parseDate_def fi fun_eq_iff cong: if_cong option.case_cong)
  next
    case (ZodEnum vals)
    then show ?thesis by (simp add: workerMap_def parseEnum_def fi cong: if_cong option.case_cong)
  next
    case (ZodNativeEnum vals)
    then show ?thesis by (simp add: workerMap_def parseNativeEnum_def fi cong: if_cong option.case_cong)
  next
    case (ZodLiteral v)
    then show ?thesis by (simp add: workerMap_def cong: if_cong option.case_cong)
  next
    case (ZodBranded inner)
    then show ?thesis by (simp add: workerMap_def parseBranded_def g cong: if_cong option.case_cong)
  next
    case ZodNull
    then show ?thesis by (simp add: workerMap_def cong: if_cong option.case_cong)
  next
    case ZodNaN
    then show ?thesis by (simp add: workerMap_def cong: if_cong option.case_cong)
  next
    case (ZodDefault dv inner)
    then show ?thesis by (simp add: workerMap_def parseZodDefault_def fi g cong: if_cong option.case_cong)
  next
    case ZodVoid
    then show ?thesis by (simp add: workerMap_def cong: if_cong option.case_cong)
  next
    case ZodUndefined
    then show ?thesis by (simp add: workerMap_def cong: if_cong option.case_cong)
  next
    case ZodUuid
    then show ?thesis by (simp add: workerMap_def parseUuid_def cong: if_cong option.case_cong)
  next
    case (ZodOther tag)
    then show ?thesis by (simp add: workerMap_def cong: if_cong option.case_cong)
  qed
qed


lemma dispatch_same:
  assumes gm: "ignores t gm" and sb: "same_but t o1 o2" and nu: "t \<noteq> ''ZodUndefined''"
    and reg: "t \<in> set workerMap_keys"
  shows "dispatch fuel gm L zodRef o1 = dispatch fuel gm L zodRef o2"
proof -
  have u: "backupMock o1 ''ZodUndefined'' = backupMock o2 ''ZodUndefined''"
    by (rule same_but_backup [OF sb not_sym [OF nu]])
  have w: "workerMap fuel gm L zodRef (o1\<lparr>backupMocks := backupMocks o1, maxDepth := maxDepth o1\<rparr>)
             = workerMap fuel gm L zodRef (o2\<lparr>backupMocks := backupMocks o2, maxDepth := maxDepth o2\<rparr>)"
    by (rule workerMap_same [OF gm same_but_entry [OF sb] nu])
  have th: "throwOnUnknownType o1 = throwOnUnknownType o2"
    by (rule same_but_fields [OF sb])
  show ?thesis
  proof (cases "typeName zodRef \<in> set workerMap_keys")
    case True
    then show ?thesis using u w by (simp add: dispatch_def cong: if_cong option.case_cong)
  next
    case False
    with reg have "typeName zodRef \<noteq> t" by auto
    then have b: "backupMock o1 (typeName zodRef) = backupMock o2 (typeName zodRef)"
      by (rule same_but_backup [OF sb])
    show ?thesis using False u b th by (simp add: dispatch_def cong: if_cong option.case_cong)
  qed
qed

lemma seed_instance_same:
  assumes "same_but t o1 o2"
  shows "seed_instance L o1 = seed_instance L o2"
proof
  fix w
  show "seed_instance L o1 w = seed_instance L o2 w"
    unfolding seed_instance_def fakerInstance_def same_but_fields [OF assms]
    by (rule refl)
qed

lemma generateMock_ignores:
  assumes nu: "t \<noteq> ''ZodUndefined''" and reg: "t \<in> set workerMap_keys"
  shows "ignores t (generateMock fuel L)"
proof (induction fuel)
  case 0
  show ?case by (simp add: ignores_def fun_eq_iff)
next
  case (Suc fuel)
  show ?case
    unfolding ignores_def
  proof (intro allI impI)
    fix zodRef and o1 o2 :: "'a options"
    assume sb: "same_but t o1 o2"
    have "generateMock (Suc fuel) L zodRef o1 w = generateMock (Suc fuel) L zodRef o2 w" for w
      unfolding generateMock_Suc
        dispatch_same [OF Suc.IH same_but_withDefaults [OF sb] nu reg]
        seed_instance_same [OF same_but_withDefaults [OF sb]]
      by (rule refl)
    then show "generateMock (Suc fuel) L zodRef o1 = generateMock (Suc fuel) L zodRef o2"
      by (rule ext)
  qed
qed

lemma same_but_update:
  "same_but t (options\<lparr>backupMocks := Some ((backupMock options)(t := f))\<rparr>) options"
  by (simp add: same_but_def backupMock_def)

text \<open>
  Claim C10. For a tag \<open>t\<close> of the registry other than \<^verbatim>\<open>ZodUndefined\<close>, replacing the
  \<^verbatim>\<open>backupMocks\<close> entry of \<open>t\<close> by any function \<open>f\<close> (or by none) changes neither the result
  nor the world of any call of \<^verbatim>\<open>generateMock\<close>, at any node and any depth of nesting: the
  entry is never consulted. The entry of \<^verbatim>\<open>ZodUndefined\<close> answers an undefined-typed node at
  the entry point and an undefined-typed element in the array synthesizer. For a node
  whose tag the registry lookup does not find, the entry of that tag answers.
\<close>

theorem backupMocks_only_fallback:
  "(t \<in> set workerMap_keys \<and> t \<noteq> ''ZodUndefined'' \<longrightarrow>
      generateMock fuel L zodRef (options\<lparr>backupMocks := Some ((backupMock options)(t := f))\<rparr>) w
        = generateMock fuel L zodRef options w)
   \<and> (\<forall>g v. backupMock options ''ZodUndefined'' = Some g \<and> g ZodUndefined = Inr v \<longrightarrow>
         map_option fst (generateMock (Suc fuel) L ZodUndefined options w) = Some (Inr v)
         \<and> array_loop gm ZodUndefined options (Suc 0) [] w = Some (Inr (VArr [v]), w))
   \<and> (\<forall>g v. typeName zodRef \<notin> set workerMap_keys \<and> typeName zodRef \<notin> set objectPrototype_keys
            \<and> backupMock options (typeName zodRef) = Some g \<and> g zodRef = Inr v \<longrightarrow>
         map_option fst (generateMock (Suc fuel) L zodRef options w) = Some (Inr v))"
proof (intro conjI allI impI)
  assume a: "t \<in> set workerMap_keys \<and> t \<noteq> ''ZodUndefined''"
  then have "ignores t (generateMock fuel L)" by (intro generateMock_ignores) simp_all
  from ignoresD [OF this same_but_update]
  show "generateMock fuel L zodRef (options\<lparr>backupMocks := Some ((backupMock options)(t := f))\<rparr>) w
        = generateMock fuel L zodRef options w"
    by simp
next
  fix g v
  assume "backupMock options ''ZodUndefined'' = Some g \<and> g ZodUndefined = Inr v"
  then show "map_option fst (generateMock (Suc fuel) L ZodUndefined options w) = Some (Inr v)"
    by (simp add: generateMock_Suc dispatch_def try_catch_def call_backup_def)
next
  fix g v
  assume "backupMock options ''ZodUndefined'' = Some g \<and> g ZodUndefined = Inr v"
  then show "array_loop gm ZodUndefined options (Suc 0) [] w = Some (Inr (VArr [v]), w)"
    by (simp add: and_then_def call_backup_def ret_def)
next
  fix g v
  assume a: "typeName zodRef \<notin> set workerMap_keys \<and> typeName zodRef \<notin> set objectPrototype_keys
            \<and> backupMock options (typeName zodRef) = Some g \<and> g zodRef = Inr v"
  then have "typeName zodRef \<noteq> ''ZodUndefined''" by (auto simp: workerMap_keys_def)
  with a show "map_option fst (generateMock (Suc fuel) L zodRef options w) = Some (Inr v)"
    by (simp add: generateMock_Suc dispatch_def try_catch_def call_backup_def)
qed

theorem backupMocks_only_fallback_witness:
  "(''ZodNull'' \<in> set workerMap_keys \<and> ''ZodNull'' \<noteq> ''ZodUndefined'')
   \<and> map_option fst (generateMock (Suc 0) stub_lib ZodNull
         (emptyOptions\<lparr>backupMocks :=
            Some ((backupMock (emptyOptions :: nat options))(''ZodNull'' := notUndefined ''ZodUndefined''))\<rparr>) world0)
       = Some (Inr VNull)
   \<and> (backupMock (emptyOptions\<lparr>backupMocks := Some notUndefined\<rparr> :: nat options) ''ZodUndefined''
         = Some (\<lambda>zodRef. Inr (VStr ''not undefined''))
        \<and> (\<lambda>zodRef :: schema. Inr (VStr ''not undefined'') :: exn + val) ZodUndefined
            = Inr (VStr ''not undefined''))
   \<and> map_option fst (generateMock (Suc 0) stub_lib ZodUndefined
         (emptyOptions\<lparr>backupMocks := Some notUndefined\<rparr>) world0)
       = Some (Inr (VStr ''not undefined''))
   \<and> (typeName (ZodOther ''ZodAny'') \<notin> set workerMap_keys
        \<and> typeName (ZodOther ''ZodAny'') \<notin> set objectPrototype_keys
        \<and> backupMock (emptyOptions\<lparr>backupMocks := Some anyValue\<rparr> :: nat options)
              (typeName (ZodOther ''ZodAny'')) = Some (\<lambda>zodRef. Inr (VStr ''any value''))
        \<and> (\<lambda>zodRef :: schema. Inr (VStr ''any value'') :: exn + val) (ZodOther ''ZodAny'')
            = Inr (VStr ''any value''))
   \<and> map_option fst (generateMock (Suc 0) stub_lib (ZodOther ''ZodAny'')
         (emptyOptions\<lparr>backupMocks := Some anyValue\<rparr>) world0)
       = Some (Inr (VStr ''any value''))"
proof -
  have k: "''ZodNull'' \<in> set workerMap_keys \<and> ''ZodNull'' \<noteq> ''ZodUndefined''"
    by (simp add: workerMap_keys_def)
  have base: "map_option fst (generateMock (Suc 0) stub_lib ZodNull emptyOptions world0)
                = Some (Inr VNull)"
    by (simp add: generateMock_Suc run_defs)
  note A = backupMocks_only_fallback [where t = "''ZodNull''" and fuel = "Suc 0" and L = stub_lib
      and zodRef = ZodNull and options = emptyOptions and f = "notUndefined ''ZodUndefined''"
      and w = world0, THEN conjunct1, rule_format, OF k]
  have a: "map_option fst (generateMock (Suc 0) stub_lib ZodNull
         (emptyOptions\<lparr>backupMocks :=
            Some ((backupMock (emptyOptions :: nat options))(''ZodNull'' := notUndefined ''ZodUndefined''))\<rparr>) world0)
       = Some (Inr VNull)"
    unfolding A by (rule base)
  have u: "backupMock (emptyOptions\<lparr>backupMocks := Some notUndefined\<rparr> :: nat options) ''ZodUndefined''
         = Some (\<lambda>zodRef. Inr (VStr ''not undefined''))
        \<and> (\<lambda>zodRef :: schema. Inr (VStr ''not undefined'') :: exn + val) ZodUndefined
            = Inr (VStr ''not undefined'')"
    by (simp add: backupMock_def notUndefined_def)
  note B = backupMocks_only_fallback [where fuel = 0 and L = stub_lib
      and options = "emptyOptions\<lparr>backupMocks := Some notUndefined\<rparr>"
      and w = world0, THEN conjunct2, THEN conjunct1, rule_format, OF u, THEN conjunct1]
  have n: "typeName (ZodOther ''ZodAny'') \<notin> set workerMap_keys
        \<and> typeName (ZodOther ''ZodAny'') \<notin> set objectPrototype_keys
        \<and> backupMock (emptyOptions\<lparr>backupMocks := Some anyValue\<rparr> :: nat options)
              (typeName (ZodOther ''ZodAny'')) = Some (\<lambda>zodRef. Inr (VStr ''any value''))
        \<and> (\<lambda>zodRef :: schema. Inr (VStr ''any value'') :: exn + val) (ZodOther ''ZodAny'')
            = Inr (VStr ''any value'')"
    by (simp add: backupMock_def anyValue_def workerMap_keys_def objectPrototype_keys_def)
  note C = backupMocks_only_fallback [where fuel = 0 and L = stub_lib
      and zodRef = "ZodOther ''ZodAny''"
      and options = "emptyOptions\<lparr>backupMocks := Some anyValue\<rparr>"
      and w = world0, THEN conjunct2, THEN conjunct2, rule_format, OF n]
  from k a u B n C show ?thesis
    by (intro conjI) (elim conjE, assumption)+
qed

section \<open>Seeded runs\<close>

lemma digit_chars: "char_of (50::nat) = CHR ''2''" "char_of (51::nat) = CHR ''3''"
  by code_simp+

text \<open>
  Claim C1 fails on the code for the \<^verbatim>\<open>ZodUuid\<close> entry of the registry. \<^verbatim>\<open>parseUuid\<close> draws
  from the module-level \<^verbatim>\<open>faker\<close>, not from the instance of the options that the entry
  point has just seeded, so the seed does not reach it: two invocations with the seed 123
  return two different identifiers. A number node, whose synthesizer draws from the seeded
  instance like every other one, returns the same number twice.
\<close>

theorem seeded_uuid_not_reproducible:
  "invoke_twice (Suc 0) stub_lib ZodUuid (emptyOptions\<lparr>seed := Some (SeedNum 123)\<rparr>) world0
     = Some (Inr (VStr ''uuid-2''), Inr (VStr ''uuid-3''))
   \<and> invoke_twice (Suc 0) stub_lib (ZodNumber []) (emptyOptions\<lparr>seed := Some (SeedNum 123)\<rparr>) world0
     = Some (Inr (VNum 123), Inr (VNum 123))"
  by (simp add: invoke_twice_def generateMock_Suc run_defs parseUuid_def parseNumber_def
      stub_lib_sel stub_str_def stub_int_def string_of_nat.simps digit_chars)

end
